theory Spec2Isabelle
  imports Complex_Main "HOL-Library.Word" "HOL-Library.Multiset"
begin

section \<open>JavaScript strings and numbers\<close>

text \<open>
  A JavaScript string is a sequence of UTF-16 code units: \<open>length\<close>, \<open>substring\<close>,
  \<open>charAt\<close> and the regular expressions of the sources all count code units.
  \<open>js\<close> embeds an ASCII literal of the sources.
\<close>

type_synonym unit16 = "16 word"
type_synonym jsstring = "unit16 list"

definition js :: "string \<Rightarrow> jsstring" where
  "js s = map of_char s"

text \<open>The class \<open>\d\<close> of a regular expression without the unicode flag: \<open>[0-9]\<close>.\<close>

definition isDigit :: "unit16 \<Rightarrow> bool" where
  "isDigit c \<longleftrightarrow> 0x30 \<le> c \<and> c \<le> 0x39"

text \<open>\<open>s.charAt(i)\<close>: the unit at \<open>i\<close> as a string, the empty string out of range.\<close>

definition charAt :: "jsstring \<Rightarrow> nat \<Rightarrow> jsstring" where
  "charAt s i = (if i < length s then [s ! i] else [])"

text \<open>
  A number that may be \<open>NaN\<close> (\<open>None\<close>). \<open>parseInt\<close> is modelled on the strings
  \<open>charAt\<close> returns (empty, or one unit): a digit gives its value, anything else \<open>NaN\<close>.
\<close>

type_synonym jsnum = "int option"

definition parseInt :: "jsstring \<Rightarrow> jsnum" where
  "parseInt s = (case s of [] \<Rightarrow> None
                 | c # _ \<Rightarrow> if isDigit c then Some (int (unat c) - 48) else None)"

definition num_add :: "jsnum \<Rightarrow> jsnum \<Rightarrow> jsnum" where
  "num_add a b = (case (a, b) of (Some x, Some y) \<Rightarrow> Some (x + y) | _ \<Rightarrow> None)"

definition num_mul :: "jsnum \<Rightarrow> jsnum \<Rightarrow> jsnum" where
  "num_mul a b = (case (a, b) of (Some x, Some y) \<Rightarrow> Some (x * y) | _ \<Rightarrow> None)"

definition num_sub :: "jsnum \<Rightarrow> jsnum \<Rightarrow> jsnum" where
  "num_sub a b = (case (a, b) of (Some x, Some y) \<Rightarrow> Some (x - y) | _ \<Rightarrow> None)"

text \<open>
  \<open>a % b\<close> takes the sign of the dividend; the sums of \<open>validateCPF\<close> are never
  negative, where it agrees with \<open>mod\<close>. The negative branch is written out all the same.
\<close>

definition num_rem :: "jsnum \<Rightarrow> jsnum \<Rightarrow> jsnum" where
  "num_rem a b = (case (a, b) of
      (Some x, Some y) \<Rightarrow>
        if y = 0 then None
        else if 0 \<le> x then Some (x mod \<bar>y\<bar>) else Some (- ((- x) mod \<bar>y\<bar>))
    | _ \<Rightarrow> None)"

text \<open>\<open>a == b\<close> on numbers: \<open>NaN\<close> equals nothing, not even itself.\<close>

definition num_eq :: "jsnum \<Rightarrow> jsnum \<Rightarrow> bool" where
  "num_eq a b = (case (a, b) of (Some x, Some y) \<Rightarrow> x = y | _ \<Rightarrow> False)"

text \<open>\<open>n.toString()\<close> of a non-negative integer: its decimal digits.\<close>

fun toString :: "nat \<Rightarrow> jsstring" where
  "toString n = (if n < 10 then [of_nat (48 + n)]
                 else toString (n div 10) @ [of_nat (48 + n mod 10)])"

declare toString.simps [simp del]

section \<open>Document validation and masks (lib/utils)\<close>

text \<open>
  \<open>validateCPF\<close>: \<open>cpf.replace(/[^\d]+/g, '')\<close> deletes every unit that is not a digit;
  then the length and the ten repeated-digit strings are excluded, and the two check
  digits are recomputed. The two \<open>for\<close> loops run over \<open>i = 0..8\<close> and \<open>i = 0..9\<close>.
\<close>

definition checkDigit :: "jsnum \<Rightarrow> jsnum" where
  "checkDigit add =
     (let rev = num_sub (Some 11) (num_rem add (Some 11))
      in if num_eq rev (Some 10) \<or> num_eq rev (Some 11) then Some 0 else rev)"

definition validateCPF :: "jsstring \<Rightarrow> bool" where
  "validateCPF cpf0 =
     (let cpf = filter isDigit cpf0 in
      if cpf = [] then False
      else if length cpf \<noteq> 11 \<or>
              cpf = js ''00000000000'' \<or>
              cpf = js ''11111111111'' \<or>
              cpf = js ''22222222222'' \<or>
              cpf = js ''33333333333'' \<or>
              cpf = js ''44444444444'' \<or>
              cpf = js ''55555555555'' \<or>
              cpf = js ''66666666666'' \<or>
              cpf = js ''77777777777'' \<or>
              cpf = js ''88888888888'' \<or>
              cpf = js ''99999999999''
      then False
      else
        let add = fold (\<lambda>i add. num_add add
                      (num_mul (parseInt (charAt cpf i)) (Some (10 - int i)))) [0..<9] (Some 0);
            rev = checkDigit add
        in if \<not> num_eq rev (parseInt (charAt cpf 9)) then False
           else
             let add = fold (\<lambda>i add. num_add add
                           (num_mul (parseInt (charAt cpf i)) (Some (11 - int i)))) [0..<10] (Some 0);
                 rev = checkDigit add
             in if \<not> num_eq rev (parseInt (charAt cpf 10)) then False
                else True)"

text \<open>
  \<open>maskCPF\<close> chains five \<open>replace\<close> calls. Only the first is global. A non-global
  \<open>replace\<close> rewrites the leftmost match and leaves the rest of the string as it is.

  \<open>replaceD3D sep\<close> is \<open>.replace(/(\d{3})(\d)/, "$1" + sep + "$2")\<close>: the leftmost
  four digits in a row get \<open>sep\<close> after the third. \<open>/(\d{3})(\d{1,2})/\<close> with
  \<open>"$1-$2"\<close> matches at the same place and its replacement differs only in how much of
  the following text it copies through \<open>$2\<close>, so it is \<open>replaceD3D\<close> with a hyphen.

  \<open>replaceTail\<close> is \<open>.replace(/(-\d{2})\d+?$/, "$1")\<close>: the leftmost hyphen followed by
  two digits and then by one or more digits up to the end of the string keeps only the
  hyphen and the two digits.
\<close>

fun replaceD3D :: "unit16 \<Rightarrow> jsstring \<Rightarrow> jsstring" where
  "replaceD3D sep (a # b # c # d # rest) =
     (if isDigit a \<and> isDigit b \<and> isDigit c \<and> isDigit d
      then a # b # c # sep # d # rest
      else a # replaceD3D sep (b # c # d # rest))"
| "replaceD3D sep s = s"

fun replaceTail :: "jsstring \<Rightarrow> jsstring" where
  "replaceTail (m # a # b # rest) =
     (if m = 0x2D \<and> isDigit a \<and> isDigit b \<and> rest \<noteq> [] \<and> list_all isDigit rest
      then [m, a, b]
      else m # replaceTail (a # b # rest))"
| "replaceTail s = s"

definition maskCPF :: "jsstring \<Rightarrow> jsstring" where
  "maskCPF v =
     replaceTail (replaceD3D 0x2D (replaceD3D 0x2E (replaceD3D 0x2E (filter isDigit v))))"

section \<open>Data model (lib/chatService)\<close>

text \<open>Instants (\<open>Date\<close> values and the ISO strings of the tables) in milliseconds.\<close>

type_synonym instant = nat

datatype role = User | Assistant

text \<open>
  The attachment descriptor of \<open>ChatMessage\<close>. \<open>saveMessageToDb\<close> takes its
  \<open>attachmentInfo\<close> as \<open>any\<close> and \<open>loadChatHistory\<close> reads these four fields
  back from the stored value.
\<close>

record attachment =
  name :: jsstring
  type :: jsstring
  previewUrl :: "jsstring option"
  url :: "jsstring option"

text \<open>
  A parsed JSON value. A number is the value \<open>JSON.parse\<close> produced; only whether it is
  zero matters below. The fields of an object are kept in the order of the text.
\<close>

datatype json =
    JNull
  | JBool bool
  | JNum rat
  | JStr jsstring
  | JArr "json list"
  | JObj "(jsstring \<times> json) list"

text \<open>
  \<open>content\<close> is declared \<open>string\<close>, but the reply of the webhook is stored in it as it
  came out of \<open>response.json()\<close>, unchecked; the field has the type of what it can hold.
\<close>

record ChatMessage =
  msg_id :: jsstring
  role :: role
  content :: json
  timestamp :: instant
  attachment :: "attachment option"

record Conversation =
  conv_id :: jsstring
  title :: jsstring
  updated_at :: instant

record File =
  f_name :: jsstring
  f_type :: jsstring
  f_bytes :: "8 word list"

datatype error =
    NotAuthenticated
  | BackendError jsstring
  | FileReadError
  | FetchFailed
  | HttpError jsstring
  | JsonSyntaxError
  | TypeError
  | CreateFailed
  | NullConversationId

section \<open>The backend and the browser, as seen from the client\<close>

text \<open>The rows of the tables \<open>conversations\<close> and \<open>chat_messages\<close>.\<close>

record conversation_row =
  cr_id :: jsstring
  cr_user_id :: jsstring
  cr_title :: jsstring
  cr_updated_at :: instant

record chat_message_row =
  mr_id :: jsstring
  mr_conversation_id :: jsstring
  mr_user_id :: jsstring
  mr_role :: role
  mr_content :: json
  mr_attachment_info :: "attachment option"
  mr_created_at :: instant

text \<open>The body \<open>sendMessageToWebhook\<close> posts.\<close>

record payload =
  user_id :: jsstring
  message :: jsstring
  conversation_id :: jsstring
  file_content_base64 :: "jsstring option"
  file_type :: "jsstring option"
  file_name :: "jsstring option"

text \<open>Every call that leaves the browser, in the order it is issued.\<close>

datatype request =
    GetSession
  | StorageUpload jsstring File
  | InsertConversation jsstring jsstring
  | SelectConversations jsstring
  | DeleteConversation jsstring
  | SelectMessages jsstring
  | InsertMessage jsstring jsstring role json "attachment option"
  | UpdateConversation jsstring instant
  | PostWebhook payload

text \<open>The lines written by \<open>console.error\<close> and \<open>console.log\<close>, one constructor a call site.\<close>

datatype console_line =
    Log_upload_error error
  | Log_attachment_error error
  | Log_send_error error
  | Log_create_error error
  | Log_list_error error
  | Log_delete_error error
  | Log_history_error error
  | Log_no_conversation_id
  | Log_save_error error
  | Log_creating_conversation
  | Log_error error

text \<open>\<open>toast("Erro ao processar mensagem: " + error.message, "error")\<close>.\<close>

datatype toast = Toast_processing_error error

record world =
  tbl_conversations :: "conversation_row list"
  tbl_chat_messages :: "chat_message_row list"
  bucket :: "(jsstring \<times> File) list"
  requests :: "request list"
  console :: "console_line list"
  toasts :: "toast list"

definition call :: "request \<Rightarrow> world \<Rightarrow> world" where
  "call r w = w\<lparr>requests := requests w @ [r]\<rparr>"

definition logLine :: "console_line \<Rightarrow> world \<Rightarrow> world" where
  "logLine l w = w\<lparr>console := console w @ [l]\<rparr>"

definition toast :: "toast \<Rightarrow> world \<Rightarrow> world" where
  "toast t w = w\<lparr>toasts := toasts w @ [t]\<rparr>"

text \<open>
  What the backend answers is not decided by the client: each operation takes the
  answers it receives as an argument. The client library resolves every call with a
  result object \<open>{data, error}\<close>. \<open>session\<close> is the user id of \<open>session?.user\<close>,
  \<open>None\<close> when there is no session or it has no user. An insert that reports no error
  has added the row, with the id and the instant the backend generated; one that reports
  an error has added nothing.
\<close>

type_synonym session = "jsstring option"

record upload_io =
  up_session :: session
  up_now :: nat
  up_error :: "error option"
  up_publicUrl :: "jsstring \<Rightarrow> jsstring"

record create_io =
  cv_session :: session
  cv_insert :: "error + jsstring \<times> instant"

record list_io =
  ls_session :: session
  ls_error :: "error option"

record save_io =
  sv_session :: session
  sv_insert :: "error + jsstring \<times> instant"
  sv_now :: instant
  sv_update :: "error option"

text \<open>What \<open>fetch\<close> gives: a rejection, or a response whose body parses as JSON or not.\<close>

datatype fetch_result =
    Rejected
  | Response bool jsstring "json option"

record webhook_io =
  wh_session :: session
  wh_reader :: "error + jsstring"
  wh_fetch :: fetch_result

section \<open>Attachments and the reply gateway\<close>

text \<open>
  \<open>convertFileToBase64\<close>: the reader's data URL, \<open>result.split(',')[1]\<close>: the text
  between the first comma and the next, \<open>undefined\<close> (\<open>None\<close>) without a comma.
\<close>

definition convertFileToBase64 :: "error + jsstring \<Rightarrow> error + jsstring option" where
  "convertFileToBase64 reader =
     (case reader of
        Inl e \<Rightarrow> Inl e
      | Inr result \<Rightarrow>
          Inr (case dropWhile (\<lambda>c. c \<noteq> 0x2C) result of
                 [] \<Rightarrow> None
               | _ # rest \<Rightarrow> Some (takeWhile (\<lambda>c. c \<noteq> 0x2C) rest)))"

text \<open>The body of the \<open>try\<close> of \<open>uploadChatAttachment\<close>: what it returns or throws.\<close>

definition uploadChatAttachment_try ::
    "upload_io \<Rightarrow> File \<Rightarrow> world \<Rightarrow> (error + jsstring) \<times> world" where
  "uploadChatAttachment_try io file w =
     (let w = call GetSession w in
      case up_session io of
        None \<Rightarrow> (Inl NotAuthenticated, w)
      | Some uid \<Rightarrow>
          let fileName = uid @ js ''/'' @ toString (up_now io) @ js ''_'' @ f_name file;
              w = call (StorageUpload fileName file) w
          in (case up_error io of
                Some uploadError \<Rightarrow> (Inl uploadError, logLine (Log_upload_error uploadError) w)
              | None \<Rightarrow>
                  (Inr (up_publicUrl io fileName),
                   w\<lparr>bucket := bucket w @ [(fileName, file)]\<rparr>)))"

text \<open>\<open>uploadChatAttachment\<close>: the \<open>catch\<close> logs and returns \<open>null\<close>.\<close>

definition uploadChatAttachment ::
    "upload_io \<Rightarrow> File \<Rightarrow> world \<Rightarrow> jsstring option \<times> world" where
  "uploadChatAttachment io file w =
     (case uploadChatAttachment_try io file w of
        (Inr publicUrl, w) \<Rightarrow> (Some publicUrl, w)
      | (Inl e, w) \<Rightarrow> (None, logLine (Log_attachment_error e) w))"

text \<open>
  Truthiness of a value that may be \<open>undefined\<close> (\<open>None\<close>), and \<open>data.key\<close>: a
  \<open>TypeError\<close> on \<open>null\<close>, the last field of that name of an object, \<open>undefined\<close> on
  anything else (no string, number, boolean or array has a property \<open>reply\<close> or
  \<open>output\<close>).
\<close>

fun truthy :: "json option \<Rightarrow> bool" where
  "truthy None = False"
| "truthy (Some JNull) = False"
| "truthy (Some (JBool b)) = b"
| "truthy (Some (JNum n)) = (n \<noteq> 0)"
| "truthy (Some (JStr s)) = (s \<noteq> [])"
| "truthy (Some (JArr _)) = True"
| "truthy (Some (JObj _)) = True"

fun getProp :: "json \<Rightarrow> jsstring \<Rightarrow> error + json option" where
  "getProp JNull key = Inl TypeError"
| "getProp (JObj members) key = Inr (map_of (rev members) key)"
| "getProp _ key = Inr None"

text \<open>
  \<open>data.reply || data.output || (typeof data === 'string' ? data : "Recebido, ...")\<close>.
\<close>

definition replyOf :: "json \<Rightarrow> error + json" where
  "replyOf data =
     (case getProp data (js ''reply'') of
        Inl e \<Rightarrow> Inl e
      | Inr reply \<Rightarrow>
          (case (truthy reply, reply) of
             (True, Some v) \<Rightarrow> Inr v
           | _ \<Rightarrow>
             (case getProp data (js ''output'') of
                Inl e \<Rightarrow> Inl e
              | Inr output \<Rightarrow>
                  (case (truthy output, output) of
                     (True, Some v) \<Rightarrow> Inr v
                   | _ \<Rightarrow>
                     (case data of
                        JStr s \<Rightarrow> Inr (JStr s)
                      | _ \<Rightarrow> Inr (JStr (js ''Recebido, mas sem resposta de texto.'')))))))"

text \<open>
  The body of the \<open>try\<close> of \<open>sendMessageToWebhook\<close>, in its two halves. First the
  payload: the user id or \<open>'anonymous'\<close>, and the file inlined, which throws when the
  file cannot be read. A field of the payload that is \<open>null\<close> or \<open>undefined\<close> is
  \<open>None\<close>.
\<close>

definition buildPayload ::
    "webhook_io \<Rightarrow> jsstring \<Rightarrow> jsstring \<Rightarrow> File option \<Rightarrow> error + payload" where
  "buildPayload io msg conversationId file =
     (let userId = (case wh_session io of
                      Some uid \<Rightarrow> if uid \<noteq> [] then uid else js ''anonymous''
                    | None \<Rightarrow> js ''anonymous'')
      in case file of
           None \<Rightarrow>
             Inr \<lparr>user_id = userId, message = msg, conversation_id = conversationId,
                  file_content_base64 = None, file_type = None, file_name = None\<rparr>
         | Some f \<Rightarrow>
             (case convertFileToBase64 (wh_reader io) of
                Inl e \<Rightarrow> Inl e
              | Inr fileContentBase64 \<Rightarrow>
                  Inr \<lparr>user_id = userId, message = msg, conversation_id = conversationId,
                       file_content_base64 = fileContentBase64,
                       file_type = Some (f_type f), file_name = Some (f_name f)\<rparr>))"

text \<open>
  Then the answer: \<open>fetch\<close> may reject, a status that is not \<open>ok\<close> throws with the
  status text, \<open>response.json()\<close> throws on a body that is not JSON, and the reply is
  picked out of the parsed body.
\<close>

definition readResponse :: "fetch_result \<Rightarrow> error + json" where
  "readResponse response =
     (case response of
        Rejected \<Rightarrow> Inl FetchFailed
      | Response ok statusText body \<Rightarrow>
          if \<not> ok then Inl (HttpError statusText)
          else (case body of
                  None \<Rightarrow> Inl JsonSyntaxError
                | Some data \<Rightarrow> replyOf data))"

definition sendMessageToWebhook_try ::
    "webhook_io \<Rightarrow> jsstring \<Rightarrow> jsstring \<Rightarrow> File option \<Rightarrow> world \<Rightarrow> (error + json) \<times> world" where
  "sendMessageToWebhook_try io msg conversationId file w =
     (let w = call GetSession w in
      case buildPayload io msg conversationId file of
        Inl e \<Rightarrow> (Inl e, w)
      | Inr payload \<Rightarrow> (readResponse (wh_fetch io), call (PostWebhook payload) w))"

text \<open>\<open>sendMessageToWebhook\<close>: the \<open>catch\<close> logs and throws the error again.\<close>

definition sendMessageToWebhook ::
    "webhook_io \<Rightarrow> jsstring \<Rightarrow> jsstring \<Rightarrow> File option \<Rightarrow> world \<Rightarrow> (error + json) \<times> world" where
  "sendMessageToWebhook io msg conversationId file w =
     (case sendMessageToWebhook_try io msg conversationId file w of
        (Inr text, w) \<Rightarrow> (Inr text, w)
      | (Inl e, w) \<Rightarrow> (Inl e, logLine (Log_send_error e) w))"

section \<open>Conversations and messages\<close>

text \<open>\<open>title.substring(0, 30) || "Nova Conversa"\<close>, then the insert.\<close>

definition createConversation ::
    "create_io \<Rightarrow> jsstring \<Rightarrow> world \<Rightarrow> Conversation option \<times> world" where
  "createConversation io title0 w =
     (let w = call GetSession w in
      case cv_session io of
        None \<Rightarrow> (None, w)
      | Some uid \<Rightarrow>
          let cleanTitle = (if take 30 title0 \<noteq> [] then take 30 title0 else js ''Nova Conversa'');
              w = call (InsertConversation uid cleanTitle) w
          in (case cv_insert io of
                Inl e \<Rightarrow> (None, logLine (Log_create_error e) w)
              | Inr (newId, stamp) \<Rightarrow>
                  (Some \<lparr>conv_id = newId, title = cleanTitle, updated_at = stamp\<rparr>,
                   w\<lparr>tbl_conversations := tbl_conversations w @
                        [\<lparr>cr_id = newId, cr_user_id = uid, cr_title = cleanTitle,
                          cr_updated_at = stamp\<rparr>]\<rparr>)))"

text \<open>\<open>getConversations\<close>: the caller's rows, latest activity first.\<close>

definition getConversations :: "list_io \<Rightarrow> world \<Rightarrow> Conversation list \<times> world" where
  "getConversations io w =
     (let w = call GetSession w in
      case ls_session io of
        None \<Rightarrow> ([], w)
      | Some uid \<Rightarrow>
          let w = call (SelectConversations uid) w
          in (case ls_error io of
                Some e \<Rightarrow> ([], logLine (Log_list_error e) w)
              | None \<Rightarrow>
                  (map (\<lambda>r. \<lparr>conv_id = cr_id r, title = cr_title r, updated_at = cr_updated_at r\<rparr>)
                     (rev (sort_key cr_updated_at
                        (filter (\<lambda>r. cr_user_id r = uid) (tbl_conversations w)))), w)))"

text \<open>
  \<open>deleteConversation\<close> issues the delete at once: it does not ask for the session.
  Its argument is the error of the backend's answer, if any.
\<close>

definition deleteConversation :: "error option \<Rightarrow> jsstring \<Rightarrow> world \<Rightarrow> bool \<times> world" where
  "deleteConversation err conversationId w =
     (let w = call (DeleteConversation conversationId) w in
      case err of
        Some e \<Rightarrow> (False, logLine (Log_delete_error e) w)
      | None \<Rightarrow>
          (True, w\<lparr>tbl_conversations :=
                     filter (\<lambda>r. cr_id r \<noteq> conversationId) (tbl_conversations w)\<rparr>))"

text \<open>\<open>loadChatHistory\<close>: the rows of the conversation by creation time, as messages.\<close>

definition loadChatHistory :: "list_io \<Rightarrow> jsstring \<Rightarrow> world \<Rightarrow> ChatMessage list \<times> world" where
  "loadChatHistory io conversationId w =
     (let w = call GetSession w in
      case ls_session io of
        None \<Rightarrow> ([], w)
      | Some uid \<Rightarrow>
          let w = call (SelectMessages conversationId) w
          in (case ls_error io of
               Some e \<Rightarrow> ([], logLine (Log_history_error e) w)
             | None \<Rightarrow>
                 (map (\<lambda>msg. \<lparr>msg_id = mr_id msg, role = mr_role msg, content = mr_content msg,
                          timestamp = mr_created_at msg,
                          attachment =
                            (case mr_attachment_info msg of
                               Some info \<Rightarrow> Some \<lparr>name = name info, type = type info,
                                                previewUrl = previewUrl info, url = url info\<rparr>
                             | None \<Rightarrow> None)\<rparr>)
                    (sort_key mr_created_at
                       (filter (\<lambda>r. mr_conversation_id r = conversationId)
                          (tbl_chat_messages w))), w)))"

text \<open>
  \<open>saveMessageToDb\<close>: nothing without a session, a log line without a conversation id;
  otherwise the insert and, when it went through, the update of the conversation's
  \<open>updated_at\<close>, whose answer is not looked at.
\<close>

definition saveMessageToDb ::
    "save_io \<Rightarrow> jsstring \<Rightarrow> role \<Rightarrow> json \<Rightarrow> attachment option \<Rightarrow> world \<Rightarrow> world" where
  "saveMessageToDb io conversationId r text attachmentInfo w =
     (let w = call GetSession w in
      case sv_session io of
        None \<Rightarrow> w
      | Some uid \<Rightarrow>
          if conversationId = [] then logLine Log_no_conversation_id w
          else
            let w = call (InsertMessage conversationId uid r text attachmentInfo) w
            in (case sv_insert io of
                 Inl e \<Rightarrow> logLine (Log_save_error e) w
               | Inr (newId, stamp) \<Rightarrow>
                   let w = w\<lparr>tbl_chat_messages := tbl_chat_messages w @
                             [\<lparr>mr_id = newId, mr_conversation_id = conversationId,
                               mr_user_id = uid, mr_role = r, mr_content = text,
                               mr_attachment_info = attachmentInfo, mr_created_at = stamp\<rparr>]\<rparr>;
                       w = call (UpdateConversation conversationId (sv_now io)) w
                   in (case sv_update io of
                         Some e \<Rightarrow> w
                       | None \<Rightarrow>
                           w\<lparr>tbl_conversations :=
                               map (\<lambda>c. if cr_id c = conversationId
                                         then c\<lparr>cr_updated_at := sv_now io\<rparr> else c)
                                 (tbl_conversations w)\<rparr>)))"


section \<open>The chat view (features/chat/ChatView)\<close>

text \<open>
  The state of the component, but for the user profile, which the send action does not
  touch. \<open>fileInput\<close> is the value of the file input behind \<open>fileInputRef\<close>, \<open>None\<close>
  while the ref is null. The effect hooks of the component are not part of
  \<open>handleSendMessage\<close> and are not modelled. One of them reloads \<open>messages\<close> from
  the history whenever \<open>activeConversationId\<close> changes; so the \<open>messages\<close> of a
  result are those of the component only for a run that leaves the active conversation
  as it was, and nothing is concluded from them for a run that creates one. No effect
  writes \<open>isTyping\<close>, and the effects only read from the backend.
\<close>

record chat_view =
  messages :: "ChatMessage list"
  inputValue :: jsstring
  isTyping :: bool
  selectedFile :: "File option"
  isSidebarOpen :: bool
  conversations :: "Conversation list"
  activeConversationId :: "jsstring option"
  fileInput :: "jsstring option"

text \<open>
  What one run of \<open>handleSendMessage\<close> receives from outside: the clock readings, the
  object URL of the preview, and the answers to the calls of each step.
\<close>

record send_env =
  now_id :: nat
  now_stamp :: instant
  objectUrl :: jsstring
  io_create :: create_io
  io_upload :: upload_io
  io_save_user :: save_io
  io_webhook :: webhook_io
  now_ai_id :: nat
  now_ai_stamp :: instant
  io_save_ai :: save_io

text \<open>\<open>String.prototype.trim\<close>: white space and line terminators go from both ends.\<close>

definition isWhiteSpace :: "unit16 \<Rightarrow> bool" where
  "isWhiteSpace c \<longleftrightarrow>
     (0x09 \<le> c \<and> c \<le> 0x0D) \<or> c = 0x20 \<or> c = 0xA0 \<or> c = 0x1680 \<or>
     (0x2000 \<le> c \<and> c \<le> 0x200A) \<or> c = 0x2028 \<or> c = 0x2029 \<or> c = 0x202F \<or>
     c = 0x205F \<or> c = 0x3000 \<or> c = 0xFEFF"

definition trim :: "jsstring \<Rightarrow> jsstring" where
  "trim s = rev (dropWhile isWhiteSpace (rev (dropWhile isWhiteSpace s)))"

definition startsWith :: "jsstring \<Rightarrow> jsstring \<Rightarrow> bool" where
  "startsWith s p \<longleftrightarrow> take (length p) s = p"

text \<open>Step 0: the message shown at once, with the local preview of an image.\<close>

definition optimisticMessage :: "send_env \<Rightarrow> jsstring \<Rightarrow> File option \<Rightarrow> ChatMessage" where
  "optimisticMessage env contentToSend fileToSend =
     (let tempUserMsgId = toString (now_id env);
          localPreviewUrl =
            (case fileToSend of
               Some f \<Rightarrow> if startsWith (f_type f) (js ''image/'') then Some (objectUrl env) else None
             | None \<Rightarrow> None)
      in \<lparr>msg_id = tempUserMsgId, role = User, content = JStr contentToSend,
           timestamp = now_stamp env,
           attachment =
             (case fileToSend of
                Some f \<Rightarrow> Some \<lparr>name = f_name f, type = f_type f,
                                 previewUrl = localPreviewUrl, url = None\<rparr>
              | None \<Rightarrow> None)\<rparr>)"

text \<open>
  Step 1: \<open>currentId\<close> is the active conversation, or a conversation created now. A
  null or empty id is falsy. The result is the error thrown, or \<open>currentId\<close>.
\<close>

definition ensureConversation ::
    "send_env \<Rightarrow> jsstring \<Rightarrow> chat_view \<Rightarrow> world \<Rightarrow> (error + jsstring option) \<times> chat_view \<times> world" where
  "ensureConversation env contentToSend ui w =
     (let currentId = activeConversationId ui in
      if currentId = None \<or> currentId = Some [] then
        (let w = logLine Log_creating_conversation w in
         case createConversation (io_create env) contentToSend w of
           (Some newConversation, w) \<Rightarrow>
             (let currentId = Some (conv_id newConversation);
                  ui = ui\<lparr>activeConversationId := currentId\<rparr>;
                  ui = ui\<lparr>conversations := newConversation # conversations ui\<rparr>
              in (Inr currentId, ui, w))
         | (None, w) \<Rightarrow> (Inl CreateFailed, ui, w))
      else (Inr currentId, ui, w))"

text \<open>Step 2: the public URL of the uploaded file, kept when it is a non-empty string.\<close>

definition uploadStep ::
    "send_env \<Rightarrow> File option \<Rightarrow> world \<Rightarrow> jsstring option \<times> world" where
  "uploadStep env fileToSend w =
     (case fileToSend of
        Some f \<Rightarrow>
          (case uploadChatAttachment (io_upload env) f w of
             (Some u, w) \<Rightarrow> (if u \<noteq> [] then Some u else None, w)
           | (None, w) \<Rightarrow> (None, w))
      | None \<Rightarrow> (None, w))"

text \<open>Step 3: the descriptor that is stored: name, type and the public URL.\<close>

definition dbAttachmentInfo :: "File option \<Rightarrow> jsstring option \<Rightarrow> attachment option" where
  "dbAttachmentInfo fileToSend publicAttachmentUrl =
     (case fileToSend of
        Some f \<Rightarrow> Some \<lparr>name = f_name f, type = f_type f, previewUrl = None,
                         url = publicAttachmentUrl\<rparr>
      | None \<Rightarrow> None)"

text \<open>The \<open>try\<close> block: the error thrown out of it, if any, and the state it leaves.\<close>

definition handleSendMessage_try ::
    "send_env \<Rightarrow> jsstring \<Rightarrow> File option \<Rightarrow> chat_view \<Rightarrow> world \<Rightarrow>
     (error + unit) \<times> chat_view \<times> world" where
  "handleSendMessage_try env contentToSend fileToSend ui w =
     (case ensureConversation env contentToSend ui w of
        (Inl e, ui, w) \<Rightarrow> (Inl e, ui, w)
      | (Inr None, ui, w) \<Rightarrow> (Inl NullConversationId, ui, w)
      | (Inr (Some currentId), ui, w) \<Rightarrow>
          if currentId = [] then (Inl NullConversationId, ui, w)
          else
            (case uploadStep env fileToSend w of
               (publicAttachmentUrl, w) \<Rightarrow>
                 (let w = saveMessageToDb (io_save_user env) currentId User (JStr contentToSend)
                            (dbAttachmentInfo fileToSend publicAttachmentUrl) w
                  in (case sendMessageToWebhook (io_webhook env) contentToSend currentId
                             fileToSend w of
                        (Inl e, w) \<Rightarrow> (Inl e, ui, w)
                      | (Inr responseText, w) \<Rightarrow>
                          (let aiMessage = \<lparr>msg_id = toString (now_ai_id env + 1),
                                 role = Assistant, content = responseText,
                                 timestamp = now_ai_stamp env, attachment = None\<rparr>;
                               ui = ui\<lparr>messages := messages ui @ [aiMessage]\<rparr>;
                               w = saveMessageToDb (io_save_ai env) currentId Assistant
                                     responseText None w
                           in (Inr (), ui, w))))))"

text \<open>
  \<open>handleSendMessage\<close>: the guard, the optimistic update, the \<open>try\<close> block, the
  \<open>catch\<close> (console and toast) and the \<open>finally\<close>. \<open>e?.preventDefault()\<close> acts on
  the event only.
\<close>

definition handleSendMessage :: "send_env \<Rightarrow> chat_view \<Rightarrow> world \<Rightarrow> chat_view \<times> world" where
  "handleSendMessage env ui w =
     (if (trim (inputValue ui) = [] \<and> selectedFile ui = None) \<or> isTyping ui then (ui, w)
      else
        (let contentToSend = inputValue ui;
             fileToSend = selectedFile ui;
             ui = ui\<lparr>messages := messages ui @
                       [optimisticMessage env contentToSend fileToSend]\<rparr>;
             ui = ui\<lparr>inputValue := []\<rparr>;
             ui = ui\<lparr>selectedFile := None\<rparr>;
             ui = ui\<lparr>fileInput := map_option (\<lambda>_. []) (fileInput ui)\<rparr>;
             ui = ui\<lparr>isTyping := True\<rparr>
         in (case handleSendMessage_try env contentToSend fileToSend ui w of
               (Inr _, ui, w) \<Rightarrow> (ui\<lparr>isTyping := False\<rparr>, w)
             | (Inl e, ui, w) \<Rightarrow>
                 (ui\<lparr>isTyping := False\<rparr>,
                  toast (Toast_processing_error e) (logLine (Log_error e) w)))))"

text \<open>
  The run once more, with its suspensions written down. \<open>handleSendMessage\<close> is
  suspended at each of its \<open>await\<close>s: on \<open>createConversation\<close> when no conversation
  is active, on \<open>uploadChatAttachment\<close> when a file was selected, on \<open>saveMessageToDb\<close>,
  on \<open>sendMessageToWebhook\<close>, and on \<open>saveMessageToDb\<close> for the reply. While it is
  suspended the component handles other events, a further send among them, in the view
  the run has left so far. \<open>handleSendMessage_awaits\<close> is \<open>handleSendMessage\<close> with
  that view recorded at every \<open>await\<close>, in order; what it returns besides is the result
  of \<open>handleSendMessage\<close>.
\<close>

definition handleSendMessage_try_awaits ::
    "send_env \<Rightarrow> jsstring \<Rightarrow> File option \<Rightarrow> chat_view \<Rightarrow> world \<Rightarrow>
     chat_view list \<times> (error + unit) \<times> chat_view \<times> world" where
  "handleSendMessage_try_awaits env contentToSend fileToSend ui w =
     (let awaits = (if activeConversationId ui = None \<or> activeConversationId ui = Some []
                    then [ui] else [])
      in case ensureConversation env contentToSend ui w of
           (Inl e, ui, w) \<Rightarrow> (awaits, Inl e, ui, w)
         | (Inr None, ui, w) \<Rightarrow> (awaits, Inl NullConversationId, ui, w)
         | (Inr (Some currentId), ui, w) \<Rightarrow>
             if currentId = [] then (awaits, Inl NullConversationId, ui, w)
             else
               (let awaits = awaits @ (case fileToSend of Some f \<Rightarrow> [ui] | None \<Rightarrow> [])
                in case uploadStep env fileToSend w of
                     (publicAttachmentUrl, w) \<Rightarrow>
                       (let awaits = awaits @ [ui];
                            w = saveMessageToDb (io_save_user env) currentId User
                                  (JStr contentToSend)
                                  (dbAttachmentInfo fileToSend publicAttachmentUrl) w;
                            awaits = awaits @ [ui]
                        in (case sendMessageToWebhook (io_webhook env) contentToSend currentId
                                   fileToSend w of
                              (Inl e, w) \<Rightarrow> (awaits, Inl e, ui, w)
                            | (Inr responseText, w) \<Rightarrow>
                                (let aiMessage = \<lparr>msg_id = toString (now_ai_id env + 1),
                                       role = Assistant, content = responseText,
                                       timestamp = now_ai_stamp env, attachment = None\<rparr>;
                                     ui = ui\<lparr>messages := messages ui @ [aiMessage]\<rparr>;
                                     awaits = awaits @ [ui];
                                     w = saveMessageToDb (io_save_ai env) currentId Assistant
                                           responseText None w
                                 in (awaits, Inr (), ui, w))))))"

definition handleSendMessage_awaits ::
    "send_env \<Rightarrow> chat_view \<Rightarrow> world \<Rightarrow> chat_view list \<times> chat_view \<times> world" where
  "handleSendMessage_awaits env ui w =
     (if (trim (inputValue ui) = [] \<and> selectedFile ui = None) \<or> isTyping ui then ([], ui, w)
      else
        (let contentToSend = inputValue ui;
             fileToSend = selectedFile ui;
             ui = ui\<lparr>messages := messages ui @
                       [optimisticMessage env contentToSend fileToSend]\<rparr>;
             ui = ui\<lparr>inputValue := []\<rparr>;
             ui = ui\<lparr>selectedFile := None\<rparr>;
             ui = ui\<lparr>fileInput := map_option (\<lambda>_. []) (fileInput ui)\<rparr>;
             ui = ui\<lparr>isTyping := True\<rparr>
         in (case handleSendMessage_try_awaits env contentToSend fileToSend ui w of
               (awaits, Inr _, ui, w) \<Rightarrow> (awaits, ui\<lparr>isTyping := False\<rparr>, w)
             | (awaits, Inl e, ui, w) \<Rightarrow>
                 (awaits, ui\<lparr>isTyping := False\<rparr>,
                  toast (Toast_processing_error e) (logLine (Log_error e) w)))))"

section \<open>Notions used to state the properties\<close>

text \<open>The message rows a run added: the table only grows at its end.\<close>

definition newMessages :: "world \<Rightarrow> world \<Rightarrow> chat_message_row list" where
  "newMessages w w' = drop (length (tbl_chat_messages w)) (tbl_chat_messages w')"

definition newRequests :: "world \<Rightarrow> world \<Rightarrow> request list" where
  "newRequests w w' = drop (length (requests w)) (requests w')"

fun isInsertMessage :: "request \<Rightarrow> bool" where
  "isInsertMessage (InsertMessage _ _ _ _ _) = True"
| "isInsertMessage _ = False"

fun isInsertConversation :: "request \<Rightarrow> bool" where
  "isInsertConversation (InsertConversation _ _) = True"
| "isInsertConversation _ = False"

fun isPostWebhook :: "request \<Rightarrow> bool" where
  "isPostWebhook (PostWebhook _) = True"
| "isPostWebhook _ = False"

text \<open>A sequence of calls of \<open>saveMessageToDb\<close> under one conversation.\<close>

record save_call =
  sc_io :: save_io
  sc_role :: role
  sc_content :: json
  sc_attachment :: "attachment option"

fun saveAll :: "jsstring \<Rightarrow> save_call list \<Rightarrow> world \<Rightarrow> world" where
  "saveAll conversationId [] w = w"
| "saveAll conversationId (c # cs) w =
     saveAll conversationId cs
       (saveMessageToDb (sc_io c) conversationId (sc_role c) (sc_content c) (sc_attachment c) w)"



text \<open>
  The reply text in the words of the specification: the first there is of the \<open>reply\<close>
  field of the parsed body, its \<open>output\<close> field, and the body if it is a string; the
  fixed sentence otherwise. \<open>fieldOf\<close> is the field of a parsed object, and nothing on
  a body that is not an object.
\<close>

fun fieldOf :: "json \<Rightarrow> jsstring \<Rightarrow> json option" where
  "fieldOf (JObj members) key = map_of (rev members) key"
| "fieldOf _ key = None"

fun rawString :: "json \<Rightarrow> json option" where
  "rawString (JStr s) = Some (JStr s)"
| "rawString _ = None"

definition spec_replyText :: "json \<Rightarrow> json" where
  "spec_replyText data =
     (case List.map_filter id
             [fieldOf data (js ''reply''), fieldOf data (js ''output''), rawString data] of
        v # _ \<Rightarrow> v
      | [] \<Rightarrow> JStr (js ''Recebido, mas sem resposta de texto.''))"

definition rowsOf :: "role \<Rightarrow> chat_message_row list \<Rightarrow> chat_message_row list" where
  "rowsOf r rows = filter (\<lambda>row. mr_role row = r) rows"

section \<open>Concrete runs\<close>

text \<open>
  A backend with nothing stored, a small image, and a run in which every call succeeds:
  the user \<open>u1\<close> is signed in, the conversation \<open>c1\<close> is open and \<open>hi\<close> is typed.
\<close>

definition emptyWorld :: world where
  "emptyWorld = \<lparr>tbl_conversations = [], tbl_chat_messages = [], bucket = [], requests = [],
     console = [], toasts = []\<rparr>"

definition pngFile :: File where
  "pngFile = \<lparr>f_name = js ''a.png'', f_type = js ''image/png'', f_bytes = [137, 80, 78, 71]\<rparr>"

definition goodEnv :: send_env where
  "goodEnv = \<lparr>now_id = 100, now_stamp = 100, objectUrl = js ''blob:1'',
     io_create = \<lparr>cv_session = Some (js ''u1''), cv_insert = Inr (js ''c2'', 101)\<rparr>,
     io_upload = \<lparr>up_session = Some (js ''u1''), up_now = 102, up_error = None,
                  up_publicUrl = (\<lambda>key. js ''https://cdn/'' @ key)\<rparr>,
     io_save_user = \<lparr>sv_session = Some (js ''u1''), sv_insert = Inr (js ''m1'', 103),
                     sv_now = 104, sv_update = None\<rparr>,
     io_webhook = \<lparr>wh_session = Some (js ''u1''),
                   wh_reader = Inr (js ''data:image/png;base64,iVBORw==''),
                   wh_fetch = Response True (js ''OK'')
                     (Some (JObj [(js ''reply'', JStr (js ''ola''))]))\<rparr>,
     now_ai_id = 105, now_ai_stamp = 105,
     io_save_ai = \<lparr>sv_session = Some (js ''u1''), sv_insert = Inr (js ''m2'', 106),
                   sv_now = 107, sv_update = None\<rparr>\<rparr>"

definition typedView :: chat_view where
  "typedView = \<lparr>messages = [], inputValue = js ''hi'', isTyping = False, selectedFile = None,
     isSidebarOpen = False, conversations = [], activeConversationId = Some (js ''c1''),
     fileInput = Some []\<rparr>"

text \<open>The same view with no conversation open.\<close>

definition freshView :: chat_view where
  "freshView = typedView\<lparr>activeConversationId := None\<rparr>"

text \<open>The webhook unreachable; and, on top of that, the insert of the user message rejected.\<close>

definition replyDownEnv :: send_env where
  "replyDownEnv = goodEnv\<lparr>io_webhook := (io_webhook goodEnv)\<lparr>wh_fetch := Rejected\<rparr>\<rparr>"

definition saveDownEnv :: send_env where
  "saveDownEnv = replyDownEnv\<lparr>io_save_user :=
     (io_save_user goodEnv)\<lparr>sv_insert := Inl (BackendError (js ''insert rejected''))\<rparr>\<rparr>"

text \<open>
  Answers of the webhook with status 200: the body \<open>null\<close>, a body that is not
  JSON, and an empty \<open>reply\<close>.
\<close>

definition nullBodyIo :: webhook_io where
  "nullBodyIo = (io_webhook goodEnv)\<lparr>wh_fetch := Response True (js ''OK'') (Some JNull)\<rparr>"

definition notJsonIo :: webhook_io where
  "notJsonIo = (io_webhook goodEnv)\<lparr>wh_fetch := Response True (js ''OK'') None\<rparr>"

definition outputBodyIo :: webhook_io where
  "outputBodyIo = (io_webhook goodEnv)\<lparr>wh_fetch := Response True (js ''OK'')
     (Some (JObj [(js ''reply'', JStr []), (js ''output'', JStr (js ''ola''))]))\<rparr>"

text \<open>
  Reading the history as \<open>u1\<close>; and the two saves of the run above, the first with the
  descriptor the pipeline builds for the uploaded image.
\<close>

definition okList :: list_io where
  "okList = \<lparr>ls_session = Some (js ''u1''), ls_error = None\<rparr>"

definition userCall :: save_call where
  "userCall = \<lparr>sc_io = io_save_user goodEnv, sc_role = User, sc_content = JStr (js ''hi''),
     sc_attachment = dbAttachmentInfo (Some pngFile) (Some (js ''https://cdn/u1/102_a.png''))\<rparr>"

definition replyCall :: save_call where
  "replyCall = \<lparr>sc_io = io_save_ai goodEnv, sc_role = Assistant, sc_content = JStr (js ''ola''),
     sc_attachment = None\<rparr>"

text \<open>
  A file selected; nobody signed in, whatever the call; and the storage rejecting the
  upload of a signed-in user.
\<close>

definition fileView :: chat_view where
  "fileView = typedView\<lparr>selectedFile := Some pngFile\<rparr>"

definition signedOutEnv :: send_env where
  "signedOutEnv = goodEnv\<lparr>
     io_create := (io_create goodEnv)\<lparr>cv_session := None\<rparr>,
     io_upload := (io_upload goodEnv)\<lparr>up_session := None\<rparr>,
     io_save_user := (io_save_user goodEnv)\<lparr>sv_session := None\<rparr>,
     io_webhook := (io_webhook goodEnv)\<lparr>wh_session := None\<rparr>,
     io_save_ai := (io_save_ai goodEnv)\<lparr>sv_session := None\<rparr>\<rparr>"

definition uploadDownEnv :: send_env where
  "uploadDownEnv = goodEnv\<lparr>io_upload :=
     (io_upload goodEnv)\<lparr>up_error := Some (BackendError (js ''upload rejected''))\<rparr>\<rparr>"

section \<open>Properties\<close>

subsection \<open>Document validation\<close>

lemma isDigit_iff:
  "isDigit c \<longleftrightarrow> c \<in> {0x30, 0x31, 0x32, 0x33, 0x34, 0x35, 0x36, 0x37, 0x38, 0x39}"
proof
  assume "isDigit c"
  then have "48 \<le> unat c" and "unat c \<le> 57"
    by (simp_all add: isDigit_def word_le_nat_alt)
  then have "unat c \<in> {48, 49, 50, 51, 52, 53, 54, 55, 56, 57}"
    by (simp only: insert_iff empty_iff) arith
  then show "c \<in> {0x30, 0x31, 0x32, 0x33, 0x34, 0x35, 0x36, 0x37, 0x38, 0x39}"
    by (auto simp: word_unat_eq_iff)
next
  assume "c \<in> {0x30, 0x31, 0x32, 0x33, 0x34, 0x35, 0x36, 0x37, 0x38, 0x39}"
  then show "isDigit c"
    by (auto simp: isDigit_def)
qed

lemma isDigit_sep [simp]: "\<not> isDigit 0x2E" "\<not> isDigit 0x2D"
  by (simp_all add: isDigit_def)

lemma replicate11: "replicate 11 d = [d,d,d,d,d,d,d,d,d,d,d]"
  by (simp add: eval_nat_numeral)

text \<open>
  Claim C9. For every digit \<open>d\<close> in 0..9, \<open>validateCPF\<close> returns false on the string
  of that digit repeated 11 times. The rejection is the comparison with the ten literals,
  taken before either check digit is computed.
\<close>

theorem validateCPF_rejects_repeated_digit:
  "isDigit d \<Longrightarrow> validateCPF (replicate 11 d) = False"
proof -
  assume d: "isDigit d"
  then have f: "filter isDigit (replicate 11 d) = replicate 11 d"
    by simp
  from d have "d \<in> {0x30, 0x31, 0x32, 0x33, 0x34, 0x35, 0x36, 0x37, 0x38, 0x39}"
    by (simp only: isDigit_iff)
  then have "replicate 11 d \<in> {js ''00000000000'', js ''11111111111'', js ''22222222222'',
      js ''33333333333'', js ''44444444444'', js ''55555555555'', js ''66666666666'',
      js ''77777777777'', js ''88888888888'', js ''99999999999''}"
    by (auto simp: js_def replicate11)
  then show ?thesis
    unfolding validateCPF_def Let_def f by auto
qed

theorem validateCPF_rejects_repeated_digit_witness:
  "isDigit 0x31 \<and> validateCPF (js ''11111111111'') = False"
proof -
  have d: "isDigit 0x31" by (simp add: isDigit_def)
  have "replicate 11 (0x31 :: unit16) = js ''11111111111''"
    by (simp add: js_def replicate11)
  with validateCPF_rejects_repeated_digit [OF d] d show ?thesis by simp
qed

lemma len11:
  assumes "length (d :: 'a list) = 11"
  obtains a b c e f g h i j k l where "d = [a, b, c, e, f, g, h, i, j, k, l]"
proof -
  from assms obtain a b c e f g h i j k l where "d = [a, b, c, e, f, g, h, i, j, k, l]"
    by (auto simp: eval_nat_numeral length_Suc_conv)
  then show ?thesis by (rule that)
qed

lemma maskCPF_digits:
  assumes "length d = 11" and "list_all isDigit d"
  shows "filter isDigit (maskCPF d) = d"
proof -
  from assms(1) obtain a b c e f g h i j k l where d: "d = [a, b, c, e, f, g, h, i, j, k, l]"
    by (rule len11)
  with assms(2) show ?thesis
    by (simp add: maskCPF_def)
qed

text \<open>
  Claim C10. \<open>validateCPF\<close> depends only on the digits of its input: on every string
  it returns what it returns on the string with all non-digits removed. In particular the
  masked form \<open>maskCPF\<close> makes of an 11-digit string validates exactly when the bare
  string does.
\<close>

theorem validateCPF_depends_on_digits_only:
  "validateCPF s = validateCPF (filter isDigit s) \<and>
   (length d = 11 \<and> list_all isDigit d \<longrightarrow> validateCPF (maskCPF d) = validateCPF d)"
proof
  show "validateCPF s = validateCPF (filter isDigit s)"
    by (simp add: validateCPF_def)
next
  show "length d = 11 \<and> list_all isDigit d \<longrightarrow> validateCPF (maskCPF d) = validateCPF d"
  proof
    assume h: "length d = 11 \<and> list_all isDigit d"
    then have m: "filter isDigit (maskCPF d) = d" by (simp add: maskCPF_digits)
    from h have "filter isDigit d = d" by (simp add: list_all_iff)
    with m show "validateCPF (maskCPF d) = validateCPF d"
      by (simp add: validateCPF_def)
  qed
qed

theorem validateCPF_depends_on_digits_only_witness:
  "length (js ''52998224725'') = 11 \<and> list_all isDigit (js ''52998224725'') \<and>
   maskCPF (js ''52998224725'') = js ''529.982.247-25'' \<and>
   validateCPF (js ''529.982.247-25'') = validateCPF (js ''52998224725'') \<and>
   validateCPF (js ''52998224725'')"
proof -
  have h: "length (js ''52998224725'') = 11 \<and> list_all isDigit (js ''52998224725'')"
    by (simp add: js_def isDigit_def)
  have m: "maskCPF (js ''52998224725'') = js ''529.982.247-25''"
    by (simp add: js_def isDigit_def maskCPF_def)
  have v: "validateCPF (js ''52998224725'')"
    by (simp add: validateCPF_def js_def isDigit_def Let_def charAt_def parseInt_def
        checkDigit_def num_add_def num_mul_def num_sub_def num_rem_def num_eq_def upt_rec)
  from validateCPF_depends_on_digits_only [of "js ''52998224725''" "js ''52998224725''"] h m v
  show ?thesis by simp
qed

subsection \<open>What each operation does to the world\<close>

lemma call_simps [simp]:
  "tbl_conversations (call r w) = tbl_conversations w"
  "tbl_chat_messages (call r w) = tbl_chat_messages w"
  "bucket (call r w) = bucket w"
  "requests (call r w) = requests w @ [r]"
  "console (call r w) = console w"
  "toasts (call r w) = toasts w"
  by (simp_all add: call_def)

lemma logLine_simps [simp]:
  "tbl_conversations (logLine l w) = tbl_conversations w"
  "tbl_chat_messages (logLine l w) = tbl_chat_messages w"
  "bucket (logLine l w) = bucket w"
  "requests (logLine l w) = requests w"
  "console (logLine l w) = console w @ [l]"
  "toasts (logLine l w) = toasts w"
  by (simp_all add: logLine_def)

lemma toast_simps [simp]:
  "tbl_conversations (toast t w) = tbl_conversations w"
  "tbl_chat_messages (toast t w) = tbl_chat_messages w"
  "bucket (toast t w) = bucket w"
  "requests (toast t w) = requests w"
  "console (toast t w) = console w"
  "toasts (toast t w) = toasts w @ [t]"
  by (simp_all add: toast_def)

lemma save_messages:
  "tbl_chat_messages (saveMessageToDb io cid r c a w) =
     tbl_chat_messages w @
       (case sv_session io of
          None \<Rightarrow> []
        | Some uid \<Rightarrow>
            (case sv_insert io of
               Inl e \<Rightarrow> []
             | Inr (newId, stamp) \<Rightarrow>
                 if cid = [] then []
                 else [\<lparr>mr_id = newId, mr_conversation_id = cid, mr_user_id = uid, mr_role = r,
                        mr_content = c, mr_attachment_info = a, mr_created_at = stamp\<rparr>]))"
  by (simp add: saveMessageToDb_def Let_def split: option.splits sum.splits prod.splits)

lemma save_requests:
  "requests (saveMessageToDb io cid r c a w) =
     requests w @ GetSession #
       (case sv_session io of
          None \<Rightarrow> []
        | Some uid \<Rightarrow>
            if cid = [] then []
            else InsertMessage cid uid r c a #
              (case sv_insert io of Inl e \<Rightarrow> [] | Inr _ \<Rightarrow> [UpdateConversation cid (sv_now io)]))"
  by (simp add: saveMessageToDb_def Let_def split: option.splits sum.splits prod.splits)

lemma save_frame:
  "toasts (saveMessageToDb io cid r c a w) = toasts w"
  "bucket (saveMessageToDb io cid r c a w) = bucket w"
  "map cr_id (tbl_conversations (saveMessageToDb io cid r c a w)) = map cr_id (tbl_conversations w)"
  by (simp_all add: saveMessageToDb_def Let_def comp_def if_distrib cong: if_cong
      split: option.splits sum.splits prod.splits)

lemma webhook_try_fst:
  "fst (sendMessageToWebhook_try io m c f w) =
     (case buildPayload io m c f of Inl e \<Rightarrow> Inl e | Inr p \<Rightarrow> readResponse (wh_fetch io))"
  by (simp add: sendMessageToWebhook_try_def Let_def split: sum.splits)

lemma webhook_fst_indep:
  "fst (sendMessageToWebhook io m c f w) = fst (sendMessageToWebhook io m c f w')"
  by (simp add: sendMessageToWebhook_def sendMessageToWebhook_try_def Let_def
      split: sum.splits prod.splits)

lemma webhook_requests:
  "requests (snd (sendMessageToWebhook io m c f w)) =
     requests w @ GetSession #
       (case buildPayload io m c f of Inl e \<Rightarrow> [] | Inr p \<Rightarrow> [PostWebhook p])"
  by (simp add: sendMessageToWebhook_def sendMessageToWebhook_try_def Let_def
      split: sum.splits prod.splits)

lemma webhook_frame:
  "tbl_chat_messages (snd (sendMessageToWebhook io m c f w)) = tbl_chat_messages w"
  "tbl_conversations (snd (sendMessageToWebhook io m c f w)) = tbl_conversations w"
  "toasts (snd (sendMessageToWebhook io m c f w)) = toasts w"
  "bucket (snd (sendMessageToWebhook io m c f w)) = bucket w"
  by (simp_all add: sendMessageToWebhook_def sendMessageToWebhook_try_def Let_def
      split: sum.splits prod.splits)

lemma upload_frame:
  "tbl_chat_messages (snd (uploadStep env f w)) = tbl_chat_messages w"
  "tbl_conversations (snd (uploadStep env f w)) = tbl_conversations w"
  "toasts (snd (uploadStep env f w)) = toasts w"
  by (simp_all add: uploadStep_def uploadChatAttachment_def uploadChatAttachment_try_def Let_def
      split: option.splits sum.splits prod.splits)

lemma ensure_frame:
  "tbl_chat_messages (snd (snd (ensureConversation env c ui w))) = tbl_chat_messages w"
  "toasts (snd (snd (ensureConversation env c ui w))) = toasts w"
  "bucket (snd (snd (ensureConversation env c ui w))) = bucket w"
  "messages (fst (snd (ensureConversation env c ui w))) = messages ui"
  "isTyping (fst (snd (ensureConversation env c ui w))) = isTyping ui"
  by (simp_all add: ensureConversation_def createConversation_def Let_def
      split: option.splits sum.splits prod.splits)

text \<open>The three ways out of the try block.\<close>

lemma try_unfold:
  "handleSendMessage_try env c f ui w =
     (let s1 = ensureConversation env c ui w; ui1 = fst (snd s1); w1 = snd (snd s1) in
      case fst s1 of
        Inl e \<Rightarrow> (Inl e, ui1, w1)
      | Inr None \<Rightarrow> (Inl NullConversationId, ui1, w1)
      | Inr (Some cid) \<Rightarrow>
          if cid = [] then (Inl NullConversationId, ui1, w1)
          else
            let s2 = uploadStep env f w1;
                w3 = saveMessageToDb (io_save_user env) cid User (JStr c)
                       (dbAttachmentInfo f (fst s2)) (snd s2);
                s4 = sendMessageToWebhook (io_webhook env) c cid f w3
            in case fst s4 of
                 Inl e \<Rightarrow> (Inl e, ui1, snd s4)
               | Inr t \<Rightarrow>
                   (Inr (),
                    ui1\<lparr>messages := messages ui1 @
                      [\<lparr>msg_id = toString (now_ai_id env + 1), role = Assistant, content = t,
                        timestamp = now_ai_stamp env, attachment = None\<rparr>]\<rparr>,
                    saveMessageToDb (io_save_ai env) cid Assistant t None (snd s4)))"
  by (simp add: handleSendMessage_try_def Let_def split: prod.splits sum.splits option.splits)

lemma ensure_fst_indep:
  "activeConversationId ui = activeConversationId ui' \<Longrightarrow>
   fst (ensureConversation env c ui w) = fst (ensureConversation env c ui' w')"
  by (simp add: ensureConversation_def createConversation_def Let_def
      split: option.splits sum.splits prod.splits)

lemma ensure_active:
  "fst (ensureConversation env c ui w) = Inr r \<Longrightarrow>
   activeConversationId (fst (snd (ensureConversation env c ui w))) = r"
  by (auto simp: ensureConversation_def createConversation_def Let_def
      split: option.splits sum.splits prod.splits if_splits)

lemma ensure_conversations:
  "fst (ensureConversation env c ui w) = Inr r \<Longrightarrow>
   length (tbl_conversations (snd (snd (ensureConversation env c ui w)))) =
     length (tbl_conversations w) +
       (if activeConversationId ui = None \<or> activeConversationId ui = Some [] then 1 else 0)"
  by (auto simp: ensureConversation_def createConversation_def Let_def
      split: option.splits sum.splits prod.splits if_splits)

lemma upload_fst_indep: "fst (uploadStep env f w) = fst (uploadStep env f w')"
  by (simp add: uploadStep_def uploadChatAttachment_def uploadChatAttachment_try_def Let_def
      split: option.splits sum.splits prod.splits)

lemma upload_bucket:
  "bucket (snd (uploadStep env fo w)) = bucket w @
     (case fo of
        None \<Rightarrow> []
      | Some f \<Rightarrow>
          (case up_session (io_upload env) of
             None \<Rightarrow> []
           | Some uid \<Rightarrow>
               (case up_error (io_upload env) of
                  Some e \<Rightarrow> []
                | None \<Rightarrow> [(uid @ js ''/'' @ toString (up_now (io_upload env)) @ js ''_'' @ f_name f, f)])))"
  by (simp add: uploadStep_def uploadChatAttachment_def uploadChatAttachment_try_def Let_def
      split: option.splits sum.splits prod.splits)

lemma run_unfold:
  assumes "\<not> isTyping ui" and "trim (inputValue ui) \<noteq> [] \<or> selectedFile ui \<noteq> None"
  shows "handleSendMessage env ui w =
     (let s = handleSendMessage_try env (inputValue ui) (selectedFile ui)
                (ui\<lparr>messages := messages ui @
                       [optimisticMessage env (inputValue ui) (selectedFile ui)],
                    inputValue := [], selectedFile := None,
                    fileInput := map_option (\<lambda>_. []) (fileInput ui), isTyping := True\<rparr>) w
      in case fst s of
           Inr u \<Rightarrow> (fst (snd s)\<lparr>isTyping := False\<rparr>, snd (snd s))
         | Inl e \<Rightarrow> (fst (snd s)\<lparr>isTyping := False\<rparr>,
                     toast (Toast_processing_error e) (logLine (Log_error e) (snd (snd s)))))"
  using assms
  by (auto simp: handleSendMessage_def Let_def split: prod.splits sum.splits)

lemmas ex_defs = emptyWorld_def pngFile_def goodEnv_def typedView_def freshView_def
  replyDownEnv_def saveDownEnv_def fileView_def signedOutEnv_def uploadDownEnv_def

lemmas run_defs = handleSendMessage_def handleSendMessage_try_def ensureConversation_def
  uploadStep_def uploadChatAttachment_def uploadChatAttachment_try_def dbAttachmentInfo_def
  saveMessageToDb_def sendMessageToWebhook_def sendMessageToWebhook_try_def buildPayload_def
  readResponse_def replyOf_def convertFileToBase64_def createConversation_def optimisticMessage_def
  call_def logLine_def toast_def trim_def isWhiteSpace_def startsWith_def js_def
  newMessages_def newRequests_def rowsOf_def Let_def


subsection \<open>The send pipeline when the reply gateway fails\<close>

text \<open>
  Claim C1, as stated, at a run where the backend rejects the insert of the user message
  and the webhook cannot be reached: the reply request fails, and no user message has
  been persisted, not one.
\<close>

theorem reply_failure_without_user_message:
  "fst (sendMessageToWebhook (io_webhook saveDownEnv) (inputValue typedView) (js ''c1'')
          (selectedFile typedView) emptyWorld) = Inl FetchFailed \<and>
   length (rowsOf User (newMessages emptyWorld
             (snd (handleSendMessage saveDownEnv typedView emptyWorld)))) = 0"
  by (simp add: ex_defs run_defs)

text \<open>
  Claim C1, amended. When the run has passed the guard, step 1 has given the conversation
  \<open>cid\<close> and the reply gateway throws \<open>e\<close>: the error is reported in a toast, the busy
  flag is cleared, no assistant message is persisted, and the user message is persisted
  once exactly when its own save went through (a session and an insert the backend
  accepted) and not at all otherwise. Nothing is rolled back: the conversation stays
  adopted and stored, the bucket keeps what the upload step put there, and, in a run on
  a conversation that was already active, the message list is the old one with the
  optimistic message and no reply. (A run that creates the conversation changes the
  active id, and the list is then reloaded by the history effect of the component.)
\<close>

theorem reply_failure_keeps_user_message:
  assumes guard: "\<not> isTyping ui" "trim (inputValue ui) \<noteq> [] \<or> selectedFile ui \<noteq> None"
    and resolved: "fst (ensureConversation env (inputValue ui) ui w) = Inr (Some cid)" "cid \<noteq> []"
    and fails: "fst (sendMessageToWebhook (io_webhook env) (inputValue ui) cid (selectedFile ui) w) = Inl e"
  shows "toasts (snd (handleSendMessage env ui w)) = toasts w @ [Toast_processing_error e] \<and>
     \<not> isTyping (fst (handleSendMessage env ui w)) \<and>
     (activeConversationId ui = Some cid \<longrightarrow>
        messages (fst (handleSendMessage env ui w)) =
          messages ui @ [optimisticMessage env (inputValue ui) (selectedFile ui)]) \<and>
     activeConversationId (fst (handleSendMessage env ui w)) = Some cid \<and>
     rowsOf Assistant (newMessages w (snd (handleSendMessage env ui w))) = [] \<and>
     rowsOf User (newMessages w (snd (handleSendMessage env ui w))) =
       (case (sv_session (io_save_user env), sv_insert (io_save_user env)) of
          (Some uid, Inr (newId, stamp)) \<Rightarrow>
            [\<lparr>mr_id = newId, mr_conversation_id = cid, mr_user_id = uid, mr_role = User,
              mr_content = JStr (inputValue ui),
              mr_attachment_info = dbAttachmentInfo (selectedFile ui)
                 (fst (uploadStep env (selectedFile ui) w)),
              mr_created_at = stamp\<rparr>]
        | _ \<Rightarrow> []) \<and>
     length (tbl_conversations (snd (handleSendMessage env ui w))) =
       length (tbl_conversations w) +
         (if activeConversationId ui = None \<or> activeConversationId ui = Some [] then 1 else 0) \<and>
     bucket (snd (handleSendMessage env ui w)) = bucket (snd (uploadStep env (selectedFile ui) w))"
proof -
  let ?c = "inputValue ui" and ?f = "selectedFile ui"
  let ?ui0 = "ui\<lparr>messages := messages ui @ [optimisticMessage env ?c ?f],
                  inputValue := [], selectedFile := None,
                  fileInput := map_option (\<lambda>_. []) (fileInput ui), isTyping := True\<rparr>"
  let ?s1 = "ensureConversation env ?c ?ui0 w"
  let ?ui1 = "fst (snd ?s1)" and ?w1 = "snd (snd ?s1)"
  let ?s2 = "uploadStep env ?f ?w1"
  let ?w3 = "saveMessageToDb (io_save_user env) cid User (JStr ?c)
               (dbAttachmentInfo ?f (fst ?s2)) (snd ?s2)"
  let ?s4 = "sendMessageToWebhook (io_webhook env) ?c cid ?f ?w3"
  have r1: "fst ?s1 = Inr (Some cid)"
    using resolved(1) ensure_fst_indep [of ?ui0 ui env ?c w w] by simp
  have r4: "fst ?s4 = Inl e"
    using fails webhook_fst_indep [of "io_webhook env" ?c cid ?f ?w3 w] by simp
  have tr: "handleSendMessage_try env ?c ?f ?ui0 w = (Inl e, ?ui1, snd ?s4)"
    by (simp add: try_unfold Let_def r1 r4 resolved(2))
  have run: "handleSendMessage env ui w =
      (?ui1\<lparr>isTyping := False\<rparr>, toast (Toast_processing_error e) (logLine (Log_error e) (snd ?s4)))"
    by (simp add: run_unfold [OF guard] Let_def tr)
  have u: "fst ?s2 = fst (uploadStep env ?f w)"
    by (rule upload_fst_indep)
  have rows: "newMessages w (snd (handleSendMessage env ui w)) =
      (case sv_session (io_save_user env) of
          None \<Rightarrow> []
        | Some uid \<Rightarrow>
            (case sv_insert (io_save_user env) of
               Inl e \<Rightarrow> []
             | Inr (newId, stamp) \<Rightarrow>
                 [\<lparr>mr_id = newId, mr_conversation_id = cid, mr_user_id = uid, mr_role = User,
                    mr_content = JStr ?c, mr_attachment_info = dbAttachmentInfo ?f (fst ?s2),
                    mr_created_at = stamp\<rparr>]))"
    using resolved(2)
    by (simp add: run newMessages_def webhook_frame save_messages upload_frame ensure_frame
        split: option.splits sum.splits)
  have conv: "length (tbl_conversations (snd (handleSendMessage env ui w))) =
       length (tbl_conversations w) +
         (if activeConversationId ui = None \<or> activeConversationId ui = Some [] then 1 else 0)"
  proof -
    have "length (tbl_conversations (snd (handleSendMessage env ui w))) =
          length (map cr_id (tbl_conversations ?w3))"
      by (simp add: run webhook_frame)
    also have "\<dots> = length (tbl_conversations ?w1)"
      by (simp only: save_frame upload_frame length_map)
    also have "\<dots> = length (tbl_conversations w) +
         (if activeConversationId ?ui0 = None \<or> activeConversationId ?ui0 = Some [] then 1 else 0)"
      by (rule ensure_conversations [OF r1])
    finally show ?thesis by simp
  qed
  have bk: "bucket (snd (handleSendMessage env ui w)) = bucket (snd (uploadStep env ?f w))"
    by (simp add: run webhook_frame save_frame upload_bucket ensure_frame)
  show ?thesis
    apply (intro conjI)
    subgoal by (simp add: run webhook_frame save_frame upload_frame ensure_frame)
    subgoal by (simp add: run)
    subgoal by (simp add: run ensure_frame)
    subgoal using ensure_active [OF r1] by (simp add: run)
    subgoal by (simp add: rows rowsOf_def split: option.splits sum.splits)
    subgoal by (simp add: rows rowsOf_def u split: option.splits sum.splits)
    subgoal by (rule conv)
    subgoal by (rule bk)
    done
qed


theorem reply_failure_keeps_user_message_witness:
  "\<not> isTyping typedView \<and>
   trim (inputValue typedView) \<noteq> [] \<and>
   fst (ensureConversation replyDownEnv (inputValue typedView) typedView emptyWorld) =
     Inr (Some (js ''c1'')) \<and>
   js ''c1'' \<noteq> [] \<and>
   fst (sendMessageToWebhook (io_webhook replyDownEnv) (inputValue typedView) (js ''c1'')
          (selectedFile typedView) emptyWorld) = Inl FetchFailed \<and>
   toasts (snd (handleSendMessage replyDownEnv typedView emptyWorld)) =
     [Toast_processing_error FetchFailed] \<and>
   activeConversationId typedView = Some (js ''c1'') \<and>
   messages (fst (handleSendMessage replyDownEnv typedView emptyWorld)) =
     messages typedView @
       [optimisticMessage replyDownEnv (inputValue typedView) (selectedFile typedView)] \<and>
   rowsOf Assistant (newMessages emptyWorld
     (snd (handleSendMessage replyDownEnv typedView emptyWorld))) = [] \<and>
   length (rowsOf User (newMessages emptyWorld
     (snd (handleSendMessage replyDownEnv typedView emptyWorld)))) = 1"
proof -
  have t: "trim (inputValue typedView) \<noteq> []"
    by (simp add: ex_defs run_defs)
  then have g: "\<not> isTyping typedView"
    "trim (inputValue typedView) \<noteq> [] \<or> selectedFile typedView \<noteq> None"
    by (simp_all add: typedView_def)
  have r: "fst (ensureConversation replyDownEnv (inputValue typedView) typedView emptyWorld) =
      Inr (Some (js ''c1''))" "js ''c1'' \<noteq> []"
    by (simp_all add: ex_defs run_defs)
  have f: "fst (sendMessageToWebhook (io_webhook replyDownEnv) (inputValue typedView) (js ''c1'')
          (selectedFile typedView) emptyWorld) = Inl FetchFailed"
    by (simp add: ex_defs run_defs)
  have s: "sv_session (io_save_user replyDownEnv) = Some (js ''u1'')"
    "sv_insert (io_save_user replyDownEnv) = Inr (js ''m1'', 103)" "toasts emptyWorld = []"
    "activeConversationId typedView = Some (js ''c1'')"
    by (simp_all add: ex_defs)
  from reply_failure_keeps_user_message [OF g r f] t g(1) r f s show ?thesis
    by simp
qed

subsection \<open>Titles of new conversations\<close>

text \<open>
  Claim C7. When \<open>createConversation\<close> creates a conversation (a session, and an insert
  the backend accepts), the row it stores and the conversation it returns carry the same
  title: the input itself when it is not empty and has at most 30 code units, the fixed
  \<open>Nova Conversa\<close> when it is empty, and its first 30 code units when it is longer.
\<close>

theorem createConversation_title:
  assumes "cv_session io = Some uid" and "cv_insert io = Inr (newId, stamp)"
  shows "\<exists>c. fst (createConversation io t w) = Some c \<and>
           tbl_conversations (snd (createConversation io t w)) =
             tbl_conversations w @
               [\<lparr>cr_id = newId, cr_user_id = uid, cr_title = title c, cr_updated_at = stamp\<rparr>] \<and>
           (t \<noteq> [] \<and> length t \<le> 30 \<longrightarrow> title c = t) \<and>
           (t = [] \<longrightarrow> title c = js ''Nova Conversa'') \<and>
           (30 < length t \<longrightarrow> title c = take 30 t \<and> length (title c) = 30)"
  using assms by (auto simp: createConversation_def Let_def)

theorem createConversation_title_witness:
  "cv_session (io_create goodEnv) = Some (js ''u1'') \<and>
   cv_insert (io_create goodEnv) = Inr (js ''c2'', 101) \<and>
   (\<exists>c. fst (createConversation (io_create goodEnv) (js ''Quero investir'') emptyWorld) = Some c \<and>
        title c = js ''Quero investir'') \<and>
   (\<exists>c. fst (createConversation (io_create goodEnv) [] emptyWorld) = Some c \<and>
        title c = js ''Nova Conversa'') \<and>
   (\<exists>c. fst (createConversation (io_create goodEnv)
              (js ''Quero saber mais sobre investimentos no exterior'') emptyWorld) = Some c \<and>
        title c = js ''Quero saber mais sobre investi'')"
proof -
  have h: "cv_session (io_create goodEnv) = Some (js ''u1'')"
    "cv_insert (io_create goodEnv) = Inr (js ''c2'', 101)"
    by (simp_all add: ex_defs)
  have l: "js ''Quero investir'' \<noteq> [] \<and> length (js ''Quero investir'') \<le> 30"
    "30 < length (js ''Quero saber mais sobre investimentos no exterior'')"
    "take 30 (js ''Quero saber mais sobre investimentos no exterior'') =
       js ''Quero saber mais sobre investi''"
    by (simp_all add: js_def)
  from createConversation_title [OF h, of "js ''Quero investir''" emptyWorld]
    createConversation_title [OF h, of "[]" emptyWorld]
    createConversation_title [OF h, of "js ''Quero saber mais sobre investimentos no exterior''" emptyWorld]
    h l
  show ?thesis by metis
qed

subsection \<open>The gateway without a session\<close>

text \<open>
  Without a session \<open>createConversation\<close> returns null, \<open>getConversations\<close> and
  \<open>loadChatHistory\<close> return the empty list and \<open>saveMessageToDb\<close> does nothing: each
  stops right after asking for the session.
\<close>

lemma gateway_without_session:
  "cv_session cio = None \<Longrightarrow> createConversation cio t w = (None, call GetSession w)"
  "ls_session lio = None \<Longrightarrow> getConversations lio w = ([], call GetSession w)"
  "ls_session lio = None \<Longrightarrow> loadChatHistory lio cid w = ([], call GetSession w)"
  "sv_session sio = None \<Longrightarrow> saveMessageToDb sio cid r c a w = call GetSession w"
  by (simp_all add: createConversation_def getConversations_def loadChatHistory_def
      saveMessageToDb_def Let_def)

text \<open>
  Claim C8 asks the same of \<open>deleteConversation\<close>: a failure flag when there is no
  session. The function has no such check. It sends the delete without asking for the
  session, and when the backend answers without an error it returns true, whoever is or
  is not signed in.
\<close>

theorem deleteConversation_never_asks_for_session:
  "deleteConversation None (js ''c1'') emptyWorld =
     (True, emptyWorld\<lparr>requests := [DeleteConversation (js ''c1'')]\<rparr>)"
  by (simp add: deleteConversation_def emptyWorld_def call_def)

subsection \<open>The busy flag\<close>

lemma try_awaits_result:
  "snd (handleSendMessage_try_awaits env c f ui w) = handleSendMessage_try env c f ui w"
  by (simp add: handleSendMessage_try_awaits_def handleSendMessage_try_def Let_def
      split: prod.splits sum.splits option.splits)

lemma awaits_unfold:
  assumes "\<not> isTyping ui" and "trim (inputValue ui) \<noteq> [] \<or> selectedFile ui \<noteq> None"
  shows "\<exists>u0 a r u' w'.
     isTyping u0 \<and>
     handleSendMessage_try_awaits env (inputValue ui) (selectedFile ui) u0 w = (a, r, u', w') \<and>
     handleSendMessage_try env (inputValue ui) (selectedFile ui) u0 w = (r, u', w') \<and>
     fst (handleSendMessage_awaits env ui w) = a \<and>
     snd (handleSendMessage_awaits env ui w) = handleSendMessage env ui w"
proof -
  let ?u0 = "ui\<lparr>messages := messages ui @
                     [optimisticMessage env (inputValue ui) (selectedFile ui)],
                  inputValue := [], selectedFile := None,
                  fileInput := map_option (\<lambda>_. []) (fileInput ui), isTyping := True\<rparr>"
  obtain a r u' w' where
    t: "handleSendMessage_try_awaits env (inputValue ui) (selectedFile ui) ?u0 w = (a, r, u', w')"
    by (cases "handleSendMessage_try_awaits env (inputValue ui) (selectedFile ui) ?u0 w") auto
  with try_awaits_result [of env "inputValue ui" "selectedFile ui" ?u0 w]
  have t': "handleSendMessage_try env (inputValue ui) (selectedFile ui) ?u0 w = (r, u', w')"
    by simp
  have "fst (handleSendMessage_awaits env ui w) = a"
    using assms by (cases r) (auto simp: handleSendMessage_awaits_def Let_def t)
  moreover have "snd (handleSendMessage_awaits env ui w) = handleSendMessage env ui w"
    using assms
    by (cases r) (auto simp: handleSendMessage_awaits_def handleSendMessage_def Let_def t t')
  moreover have "isTyping ?u0" by simp
  ultimately show ?thesis using t t' by blast
qed

lemma awaits_result: "snd (handleSendMessage_awaits env ui w) = handleSendMessage env ui w"
proof (cases "(trim (inputValue ui) = [] \<and> selectedFile ui = None) \<or> isTyping ui")
  case True
  then show ?thesis
    by (simp add: handleSendMessage_awaits_def handleSendMessage_def)
next
  case False
  then have "\<not> isTyping ui" "trim (inputValue ui) \<noteq> [] \<or> selectedFile ui \<noteq> None"
    by auto
  from awaits_unfold [OF this] show ?thesis by blast
qed

lemma try_awaits_busy:
  "\<forall>v \<in> set (fst (handleSendMessage_try_awaits env c f ui w)). isTyping v = isTyping ui"
  by (auto simp: handleSendMessage_try_awaits_def Let_def ensure_frame
      split: prod.splits sum.splits option.splits if_splits
      dest: arg_cong [where f = "\<lambda>r. isTyping (fst (snd r))"])

lemma try_awaits_nonempty:
  "fst (handleSendMessage_try_awaits env c f ui w) \<noteq> []"
  by (auto simp: handleSendMessage_try_awaits_def ensureConversation_def Let_def
      split: prod.splits sum.splits option.splits if_splits)

lemma awaits_busy:
  "\<forall>v \<in> set (fst (handleSendMessage_awaits env ui w)). isTyping v"
proof (cases "(trim (inputValue ui) = [] \<and> selectedFile ui = None) \<or> isTyping ui")
  case True
  then show ?thesis by (simp add: handleSendMessage_awaits_def)
next
  case False
  then have "\<not> isTyping ui" "trim (inputValue ui) \<noteq> [] \<or> selectedFile ui \<noteq> None"
    by auto
  from awaits_unfold [OF this, of env w] obtain u0 a r u' w' where
    "isTyping u0"
    "handleSendMessage_try_awaits env (inputValue ui) (selectedFile ui) u0 w = (a, r, u', w')"
    "fst (handleSendMessage_awaits env ui w) = a"
    by blast
  with try_awaits_busy [of env "inputValue ui" "selectedFile ui" u0 w] show ?thesis
    by simp
qed

lemma awaits_nonempty:
  assumes "\<not> isTyping ui" and "trim (inputValue ui) \<noteq> [] \<or> selectedFile ui \<noteq> None"
  shows "fst (handleSendMessage_awaits env ui w) \<noteq> []"
proof -
  from awaits_unfold [OF assms, of env w] obtain u0 a r u' w' where
    "handleSendMessage_try_awaits env (inputValue ui) (selectedFile ui) u0 w = (a, r, u', w')"
    "fst (handleSendMessage_awaits env ui w) = a"
    by blast
  with try_awaits_nonempty [of env "inputValue ui" "selectedFile ui" u0 w] show ?thesis
    by simp
qed

text \<open>
  Claim C3. A send invoked while the busy flag is set returns the view and the world as
  they were, so it issues no request. A run that passes the guard sets the flag before
  its first \<open>await\<close> and is suspended at least once; in the view of every suspension
  the flag is set, so a send invoked there, whatever the message list has become and
  whatever the backend would answer, is such a no-op: no second run is ever in flight.
  The flag is clear after every run, whatever the backend and the webhook answered, and
  the \<open>try\<close> block never writes it.
\<close>

theorem send_while_busy_is_noop:
  "(isTyping ui \<longrightarrow> handleSendMessage env ui w = (ui, w) \<and>
                  newRequests w (snd (handleSendMessage env ui w)) = []) \<and>
   (\<not> isTyping ui \<longrightarrow> \<not> isTyping (fst (handleSendMessage env ui w))) \<and>
   isTyping (fst (snd (handleSendMessage_try env c f ui w))) = isTyping ui \<and>
   snd (handleSendMessage_awaits env ui w) = handleSendMessage env ui w \<and>
   (\<not> isTyping ui \<and> (trim (inputValue ui) \<noteq> [] \<or> selectedFile ui \<noteq> None) \<longrightarrow>
      fst (handleSendMessage_awaits env ui w) \<noteq> []) \<and>
   (\<forall>v \<in> set (fst (handleSendMessage_awaits env ui w)).
      isTyping v \<and>
      (\<forall>msgs env' w'.
         handleSendMessage env' (v\<lparr>messages := msgs\<rparr>) w' = (v\<lparr>messages := msgs\<rparr>, w') \<and>
         newRequests w' (snd (handleSendMessage env' (v\<lparr>messages := msgs\<rparr>) w')) = []))"
proof (intro conjI)
  show "isTyping ui \<longrightarrow> handleSendMessage env ui w = (ui, w) \<and>
                  newRequests w (snd (handleSendMessage env ui w)) = []"
    by (simp add: handleSendMessage_def newRequests_def)
  show "\<not> isTyping ui \<longrightarrow> \<not> isTyping (fst (handleSendMessage env ui w))"
    by (auto simp: handleSendMessage_def Let_def split: prod.splits sum.splits)
  show "isTyping (fst (snd (handleSendMessage_try env c f ui w))) = isTyping ui"
    by (simp add: try_unfold Let_def ensure_frame split: sum.splits option.splits)
  show "snd (handleSendMessage_awaits env ui w) = handleSendMessage env ui w"
    by (rule awaits_result)
  show "\<not> isTyping ui \<and> (trim (inputValue ui) \<noteq> [] \<or> selectedFile ui \<noteq> None) \<longrightarrow>
      fst (handleSendMessage_awaits env ui w) \<noteq> []"
    using awaits_nonempty by blast
  show "\<forall>v \<in> set (fst (handleSendMessage_awaits env ui w)).
      isTyping v \<and>
      (\<forall>msgs env' w'.
         handleSendMessage env' (v\<lparr>messages := msgs\<rparr>) w' = (v\<lparr>messages := msgs\<rparr>, w') \<and>
         newRequests w' (snd (handleSendMessage env' (v\<lparr>messages := msgs\<rparr>) w')) = [])"
    using awaits_busy [of env ui w]
    by (simp add: handleSendMessage_def newRequests_def)
qed

theorem send_while_busy_is_noop_witness:
  "\<not> isTyping typedView \<and> trim (inputValue typedView) \<noteq> [] \<and>
   fst (handleSendMessage_awaits goodEnv typedView emptyWorld) \<noteq> [] \<and>
   isTyping (hd (fst (handleSendMessage_awaits goodEnv typedView emptyWorld))) \<and>
   handleSendMessage goodEnv (hd (fst (handleSendMessage_awaits goodEnv typedView emptyWorld)))
       emptyWorld =
     (hd (fst (handleSendMessage_awaits goodEnv typedView emptyWorld)), emptyWorld) \<and>
   snd (handleSendMessage_awaits goodEnv typedView emptyWorld) =
     handleSendMessage goodEnv typedView emptyWorld \<and>
   \<not> isTyping (fst (handleSendMessage goodEnv typedView emptyWorld)) \<and>
   \<not> isTyping (fst (handleSendMessage replyDownEnv typedView emptyWorld))"
proof -
  let ?v = "hd (fst (handleSendMessage_awaits goodEnv typedView emptyWorld))"
  have t: "\<not> isTyping typedView" "trim (inputValue typedView) \<noteq> []"
    by (simp_all add: ex_defs run_defs)
  note th = send_while_busy_is_noop [of typedView goodEnv emptyWorld]
  from th t have n: "fst (handleSendMessage_awaits goodEnv typedView emptyWorld) \<noteq> []"
    by blast
  then have m: "?v \<in> set (fst (handleSendMessage_awaits goodEnv typedView emptyWorld))"
    by simp
  with th have b: "isTyping ?v"
    and "\<forall>msgs env' w'. handleSendMessage env' (?v\<lparr>messages := msgs\<rparr>) w' =
           (?v\<lparr>messages := msgs\<rparr>, w')"
    by blast+
  then have "handleSendMessage goodEnv (?v\<lparr>messages := messages ?v\<rparr>) emptyWorld =
      (?v\<lparr>messages := messages ?v\<rparr>, emptyWorld)"
    by blast
  then have 1: "handleSendMessage goodEnv ?v emptyWorld = (?v, emptyWorld)"
    by simp
  from th have 2: "snd (handleSendMessage_awaits goodEnv typedView emptyWorld) =
     handleSendMessage goodEnv typedView emptyWorld"
    by blast
  from th t have 3: "\<not> isTyping (fst (handleSendMessage goodEnv typedView emptyWorld))"
    by blast
  from send_while_busy_is_noop [of typedView replyDownEnv emptyWorld] t
  have 4: "\<not> isTyping (fst (handleSendMessage replyDownEnv typedView emptyWorld))"
    by blast
  from t n b 1 2 3 4 show ?thesis by blast
qed


subsection \<open>The reply text\<close>

text \<open>
  Claim C5, as stated, at two responses with status 200. The body \<open>null\<close> has no
  \<open>reply\<close> field, no \<open>output\<close> field and is not a string, so the claim gives the fixed
  sentence; \<open>sendMessageToWebhook\<close> throws a \<open>TypeError\<close> instead, on reading
  \<open>data.reply\<close>. The body with an empty \<open>reply\<close> and an \<open>output\<close> has a \<open>reply\<close>
  field, which the claim puts first; \<open>sendMessageToWebhook\<close> returns the \<open>output\<close>.
\<close>

theorem reply_of_null_body:
  "fst (sendMessageToWebhook nullBodyIo (js ''hi'') (js ''c1'') None emptyWorld) = Inl TypeError \<and>
   spec_replyText JNull = JStr (js ''Recebido, mas sem resposta de texto.'') \<and>
   fst (sendMessageToWebhook outputBodyIo (js ''hi'') (js ''c1'') None emptyWorld) =
     Inr (JStr (js ''ola'')) \<and>
   spec_replyText (JObj [(js ''reply'', JStr []), (js ''output'', JStr (js ''ola''))]) = JStr []"
  by (simp add: nullBodyIo_def outputBodyIo_def ex_defs run_defs spec_replyText_def
      List.map_filter_simps)

lemma replyOf_cases:
  assumes "data \<noteq> JNull"
  shows "replyOf data =
     Inr (case (truthy (fieldOf data (js ''reply'')), fieldOf data (js ''reply'')) of
            (True, Some v) \<Rightarrow> v
          | _ \<Rightarrow>
            (case (truthy (fieldOf data (js ''output'')), fieldOf data (js ''output'')) of
               (True, Some v) \<Rightarrow> v
             | _ \<Rightarrow> (case rawString data of Some s \<Rightarrow> s
                      | None \<Rightarrow> JStr (js ''Recebido, mas sem resposta de texto.''))))"
  using assms
  by (cases data) (simp_all add: replyOf_def split: option.splits bool.splits)

lemma truthy_Some: "truthy x \<Longrightarrow> \<exists>v. x = Some v"
  by (cases x) simp_all

lemma reply_text_of_json_body:
  assumes ok: "wh_fetch io = Response True statusText (Some data)"
    and nn: "data \<noteq> JNull"
    and sent: "f = None \<or> \<not> isl (wh_reader io)"
  shows "\<exists>v. fst (sendMessageToWebhook io m c f w) = Inr v \<and>
     (truthy (fieldOf data (js ''reply'')) \<longrightarrow> Some v = fieldOf data (js ''reply'')) \<and>
     (\<not> truthy (fieldOf data (js ''reply'')) \<and> truthy (fieldOf data (js ''output'')) \<longrightarrow>
        Some v = fieldOf data (js ''output'')) \<and>
     (\<not> truthy (fieldOf data (js ''reply'')) \<and> \<not> truthy (fieldOf data (js ''output'')) \<longrightarrow>
        v = (case rawString data of Some s \<Rightarrow> s
             | None \<Rightarrow> JStr (js ''Recebido, mas sem resposta de texto.''))) \<and>
     ((fieldOf data (js ''reply'') \<noteq> None \<longrightarrow> truthy (fieldOf data (js ''reply''))) \<and>
      (fieldOf data (js ''output'') \<noteq> None \<longrightarrow> truthy (fieldOf data (js ''output''))) \<longrightarrow>
        v = spec_replyText data)"
proof -
  from sent obtain p where p: "buildPayload io m c f = Inr p"
    by (cases f; cases "wh_reader io")
       (auto simp: buildPayload_def convertFileToBase64_def Let_def)
  have r: "fst (sendMessageToWebhook io m c f w) = replyOf data"
    by (simp add: sendMessageToWebhook_def sendMessageToWebhook_try_def Let_def p ok
        readResponse_def split: sum.splits)
  let ?v = "case (truthy (fieldOf data (js ''reply'')), fieldOf data (js ''reply'')) of
            (True, Some v) \<Rightarrow> v
          | _ \<Rightarrow>
            (case (truthy (fieldOf data (js ''output'')), fieldOf data (js ''output'')) of
               (True, Some v) \<Rightarrow> v
             | _ \<Rightarrow> (case rawString data of Some s \<Rightarrow> s
                      | None \<Rightarrow> JStr (js ''Recebido, mas sem resposta de texto.'')))"
  have v: "fst (sendMessageToWebhook io m c f w) = Inr ?v"
    by (simp only: r replyOf_cases [OF nn])
  have 1: "truthy (fieldOf data (js ''reply'')) \<longrightarrow> Some ?v = fieldOf data (js ''reply'')"
    by (auto dest: truthy_Some)
  have 2: "\<not> truthy (fieldOf data (js ''reply'')) \<and> truthy (fieldOf data (js ''output'')) \<longrightarrow>
        Some ?v = fieldOf data (js ''output'')"
    by (auto dest: truthy_Some split: option.splits)
  have 3: "\<not> truthy (fieldOf data (js ''reply'')) \<and> \<not> truthy (fieldOf data (js ''output'')) \<longrightarrow>
        ?v = (case rawString data of Some s \<Rightarrow> s
             | None \<Rightarrow> JStr (js ''Recebido, mas sem resposta de texto.''))"
    by (auto split: option.splits)
  have 4: "(fieldOf data (js ''reply'') \<noteq> None \<longrightarrow> truthy (fieldOf data (js ''reply''))) \<and>
      (fieldOf data (js ''output'') \<noteq> None \<longrightarrow> truthy (fieldOf data (js ''output''))) \<longrightarrow>
        ?v = spec_replyText data"
    by (auto simp: spec_replyText_def List.map_filter_simps split: option.splits)
  from v 1 2 3 4 show ?thesis by blast
qed

lemma not_json_body:
  assumes ok: "wh_fetch io = Response True statusText None"
    and sent: "f = None \<or> \<not> isl (wh_reader io)"
  shows "fst (sendMessageToWebhook io m c f w) = Inl JsonSyntaxError"
    and "console (snd (sendMessageToWebhook io m c f w)) =
           console w @ [Log_send_error JsonSyntaxError]"
proof -
  from sent obtain p where p: "buildPayload io m c f = Inr p"
    by (cases f; cases "wh_reader io")
       (auto simp: buildPayload_def convertFileToBase64_def Let_def)
  show "fst (sendMessageToWebhook io m c f w) = Inl JsonSyntaxError"
    by (simp add: sendMessageToWebhook_def sendMessageToWebhook_try_def Let_def p ok
        readResponse_def)
  show "console (snd (sendMessageToWebhook io m c f w)) =
           console w @ [Log_send_error JsonSyntaxError]"
    by (simp add: sendMessageToWebhook_def sendMessageToWebhook_try_def Let_def p ok
        readResponse_def)
qed

text \<open>
  Claim C5, amended. For every response with a success status whose body parses to a JSON
  value other than \<open>null\<close>, \<open>sendMessageToWebhook\<close> returns: the \<open>reply\<close> field when
  it is truthy; else the \<open>output\<close> field when it is truthy; else the body itself when it
  is a string, and the fixed sentence when it is not. A field that is absent, \<open>null\<close>,
  \<open>false\<close>, zero or the empty string is passed over. When the fields that are present
  are truthy, this is the reply text of the specification. For a response with a success
  status whose body is not JSON, \<open>sendMessageToWebhook\<close> logs the parsing failure and
  throws it.
\<close>

theorem reply_text_of_successful_response:
  assumes sent: "f = None \<or> \<not> isl (wh_reader io)"
  shows "(\<forall>statusText data.
       wh_fetch io = Response True statusText (Some data) \<and> data \<noteq> JNull \<longrightarrow>
       (\<exists>v. fst (sendMessageToWebhook io m c f w) = Inr v \<and>
          (truthy (fieldOf data (js ''reply'')) \<longrightarrow> Some v = fieldOf data (js ''reply'')) \<and>
          (\<not> truthy (fieldOf data (js ''reply'')) \<and> truthy (fieldOf data (js ''output'')) \<longrightarrow>
             Some v = fieldOf data (js ''output'')) \<and>
          (\<not> truthy (fieldOf data (js ''reply'')) \<and> \<not> truthy (fieldOf data (js ''output'')) \<longrightarrow>
             v = (case rawString data of Some s \<Rightarrow> s
                  | None \<Rightarrow> JStr (js ''Recebido, mas sem resposta de texto.''))) \<and>
          ((fieldOf data (js ''reply'') \<noteq> None \<longrightarrow> truthy (fieldOf data (js ''reply''))) \<and>
           (fieldOf data (js ''output'') \<noteq> None \<longrightarrow> truthy (fieldOf data (js ''output''))) \<longrightarrow>
             v = spec_replyText data))) \<and>
     (\<forall>statusText.
       wh_fetch io = Response True statusText None \<longrightarrow>
       fst (sendMessageToWebhook io m c f w) = Inl JsonSyntaxError \<and>
       console (snd (sendMessageToWebhook io m c f w)) =
         console w @ [Log_send_error JsonSyntaxError])"
proof (intro conjI allI impI)
  fix statusText data
  assume "wh_fetch io = Response True statusText (Some data) \<and> data \<noteq> JNull"
  then have ok: "wh_fetch io = Response True statusText (Some data)" and nn: "data \<noteq> JNull"
    by simp_all
  show "\<exists>v. fst (sendMessageToWebhook io m c f w) = Inr v \<and>
          (truthy (fieldOf data (js ''reply'')) \<longrightarrow> Some v = fieldOf data (js ''reply'')) \<and>
          (\<not> truthy (fieldOf data (js ''reply'')) \<and> truthy (fieldOf data (js ''output'')) \<longrightarrow>
             Some v = fieldOf data (js ''output'')) \<and>
          (\<not> truthy (fieldOf data (js ''reply'')) \<and> \<not> truthy (fieldOf data (js ''output'')) \<longrightarrow>
             v = (case rawString data of Some s \<Rightarrow> s
                  | None \<Rightarrow> JStr (js ''Recebido, mas sem resposta de texto.''))) \<and>
          ((fieldOf data (js ''reply'') \<noteq> None \<longrightarrow> truthy (fieldOf data (js ''reply''))) \<and>
           (fieldOf data (js ''output'') \<noteq> None \<longrightarrow> truthy (fieldOf data (js ''output''))) \<longrightarrow>
             v = spec_replyText data)"
    by (rule reply_text_of_json_body [OF ok nn sent])
next
  fix statusText
  assume ok: "wh_fetch io = Response True statusText None"
  show "fst (sendMessageToWebhook io m c f w) = Inl JsonSyntaxError"
    by (rule not_json_body(1) [OF ok sent])
  show "console (snd (sendMessageToWebhook io m c f w)) =
         console w @ [Log_send_error JsonSyntaxError]"
    by (rule not_json_body(2) [OF ok sent])
qed

theorem reply_text_of_successful_response_witness:
  "wh_fetch outputBodyIo = Response True (js ''OK'')
     (Some (JObj [(js ''reply'', JStr []), (js ''output'', JStr (js ''ola''))])) \<and>
   JObj [(js ''reply'', JStr []), (js ''output'', JStr (js ''ola''))] \<noteq> JNull \<and>
   fst (sendMessageToWebhook outputBodyIo (js ''hi'') (js ''c1'') None emptyWorld) =
     Inr (JStr (js ''ola'')) \<and>
   wh_fetch notJsonIo = Response True (js ''OK'') None \<and>
   fst (sendMessageToWebhook notJsonIo (js ''hi'') (js ''c1'') None emptyWorld) =
     Inl JsonSyntaxError \<and>
   console (snd (sendMessageToWebhook notJsonIo (js ''hi'') (js ''c1'') None emptyWorld)) =
     [Log_send_error JsonSyntaxError]"
proof -
  let ?d = "JObj [(js ''reply'', JStr []), (js ''output'', JStr (js ''ola''))]"
  have ok: "wh_fetch outputBodyIo = Response True (js ''OK'') (Some ?d)"
    by (simp add: outputBodyIo_def ex_defs)
  have nn: "?d \<noteq> JNull" by simp
  have t: "\<not> truthy (fieldOf ?d (js ''reply''))" "truthy (fieldOf ?d (js ''output''))"
    "fieldOf ?d (js ''output'') = Some (JStr (js ''ola''))"
    by (simp_all add: js_def)
  have sent: "(None :: File option) = None \<or> \<not> isl (wh_reader io)" for io
    by simp
  from reply_text_of_successful_response [OF sent, of outputBodyIo "js ''hi''" "js ''c1''" emptyWorld] ok nn
  obtain v where v: "fst (sendMessageToWebhook outputBodyIo (js ''hi'') (js ''c1'') None
        emptyWorld) = Inr v"
    "truthy (fieldOf ?d (js ''reply'')) \<longrightarrow> Some v = fieldOf ?d (js ''reply'')"
    "\<not> truthy (fieldOf ?d (js ''reply'')) \<and> truthy (fieldOf ?d (js ''output'')) \<longrightarrow>
       Some v = fieldOf ?d (js ''output'')"
    by blast
  with t have 1: "fst (sendMessageToWebhook outputBodyIo (js ''hi'') (js ''c1'') None
        emptyWorld) = Inr (JStr (js ''ola''))"
    by simp
  have nj: "wh_fetch notJsonIo = Response True (js ''OK'') None"
    and e: "console emptyWorld = []"
    by (simp_all add: notJsonIo_def ex_defs)
  from reply_text_of_successful_response [OF sent, of notJsonIo "js ''hi''" "js ''c1''" emptyWorld] nj
  have 2: "fst (sendMessageToWebhook notJsonIo (js ''hi'') (js ''c1'') None emptyWorld) =
     Inl JsonSyntaxError"
    "console (snd (sendMessageToWebhook notJsonIo (js ''hi'') (js ''c1'') None emptyWorld)) =
       console emptyWorld @ [Log_send_error JsonSyntaxError]"
    by blast+
  from ok nn 1 nj 2 e show ?thesis
    by simp
qed


subsection \<open>Saving and loading the history\<close>












lemma history_by_creation_time:
  "map role (fst (loadChatHistory okList (js ''c1'')
       (saveAll (js ''c1'') [replyCall, userCall] emptyWorld))) = [User, Assistant]"
  by (simp add: userCall_def replyCall_def okList_def loadChatHistory_def ex_defs run_defs)




subsection \<open>The requests of a run\<close>

lemma ensure_requests:
  "requests (snd (snd (ensureConversation env c ui w))) =
     requests w @
       (if activeConversationId ui = None \<or> activeConversationId ui = Some [] then
          GetSession #
            (case cv_session (io_create env) of
               None \<Rightarrow> []
             | Some uid \<Rightarrow>
                 [InsertConversation uid (if take 30 c \<noteq> [] then take 30 c else js ''Nova Conversa'')])
        else [])"
  by (simp add: ensureConversation_def createConversation_def Let_def
      split: option.splits sum.splits prod.splits)

lemma upload_requests:
  "requests (snd (uploadStep env fo w)) =
     requests w @
       (case fo of
          None \<Rightarrow> []
        | Some f \<Rightarrow>
            GetSession #
              (case up_session (io_upload env) of
                 None \<Rightarrow> []
               | Some uid \<Rightarrow>
                   [StorageUpload
                      (uid @ js ''/'' @ toString (up_now (io_upload env)) @ js ''_'' @ f_name f) f]))"
  by (simp add: uploadStep_def uploadChatAttachment_def uploadChatAttachment_try_def Let_def
      split: option.splits sum.splits prod.splits)

lemma upload_fails:
  assumes "up_session io = None \<or> up_error io \<noteq> None"
  shows "\<exists>e. fst (uploadChatAttachment_try io f w) = Inl e"
    and "fst (uploadChatAttachment io f w) = None"
  using assms
  by (auto simp: uploadChatAttachment_def uploadChatAttachment_try_def Let_def
      split: option.splits sum.splits prod.splits)

lemma uploadStep_fails:
  assumes "up_session (io_upload env) = None \<or> up_error (io_upload env) \<noteq> None"
  shows "fst (uploadStep env fo w) = None"
  using assms
  by (auto simp: uploadStep_def uploadChatAttachment_def uploadChatAttachment_try_def Let_def
      split: option.splits sum.splits prod.splits)


lemma requests_folded:
  "requests (snd (snd (ensureConversation env c ui w))) =
     requests w @ newRequests w (snd (snd (ensureConversation env c ui w)))"
  "requests (snd (uploadStep env fo w)) = requests w @ newRequests w (snd (uploadStep env fo w))"
  "requests (saveMessageToDb sio cid r ct a w) =
     requests w @ newRequests w (saveMessageToDb sio cid r ct a w)"
  "requests (snd (sendMessageToWebhook wio m cid f w)) =
     requests w @ newRequests w (snd (sendMessageToWebhook wio m cid f w))"
  by (simp_all add: newRequests_def ensure_requests upload_requests save_requests webhook_requests)

lemma newRequests_append: "requests w' = requests w @ rs \<Longrightarrow> newRequests w w' = rs"
  by (simp add: newRequests_def)

lemma ensure_new:
  "filter isPostWebhook (newRequests w (snd (snd (ensureConversation env c ui w)))) = []"
  "filter isInsertMessage (newRequests w (snd (snd (ensureConversation env c ui w)))) = []"
  by (simp_all add: newRequests_def ensure_requests split: option.splits)

lemma upload_new:
  "filter isPostWebhook (newRequests w (snd (uploadStep env fo w))) = []"
  "filter isInsertMessage (newRequests w (snd (uploadStep env fo w))) = []"
  "filter isInsertConversation (newRequests w (snd (uploadStep env fo w))) = []"
  by (simp_all add: newRequests_def upload_requests split: option.splits)

lemma save_new:
  "filter isPostWebhook (newRequests w (saveMessageToDb sio cid r ct a w)) = []"
  "filter isInsertConversation (newRequests w (saveMessageToDb sio cid r ct a w)) = []"
  by (simp_all add: newRequests_def save_requests split: option.splits sum.splits)

lemma webhook_new:
  "filter isPostWebhook (newRequests w (snd (sendMessageToWebhook wio m cid f w))) =
     (case buildPayload wio m cid f of Inl e \<Rightarrow> [] | Inr p \<Rightarrow> [PostWebhook p])"
  "filter isInsertMessage (newRequests w (snd (sendMessageToWebhook wio m cid f w))) = []"
  "filter isInsertConversation (newRequests w (snd (sendMessageToWebhook wio m cid f w))) = []"
  by (simp_all add: newRequests_def webhook_requests split: sum.splits)

subsection \<open>The send pipeline when the upload fails\<close>

text \<open>
  Claim C4, as stated, at a run with a file selected and nobody signed in: the upload
  fails for want of a session, the reply is requested, and the user message is not
  persisted at all, since \<open>saveMessageToDb\<close> stops for the same reason.
\<close>

theorem upload_failure_without_user_message:
  "up_session (io_upload signedOutEnv) = None \<and>
   fst (uploadChatAttachment (io_upload signedOutEnv) pngFile emptyWorld) = None \<and>
   newMessages emptyWorld (snd (handleSendMessage signedOutEnv fileView emptyWorld)) = [] \<and>
   length (filter isPostWebhook
     (newRequests emptyWorld (snd (handleSendMessage signedOutEnv fileView emptyWorld)))) = 1"
  by (simp add: ex_defs run_defs)

text \<open>
  Claim C4, amended. With a file selected, the conversation resolved, and the upload
  failing for want of a session or by a rejection: the \<open>try\<close> body of
  \<open>uploadChatAttachment\<close> throws and the function returns null; the run goes on. The
  user message is saved with a descriptor that has the name and type of the file and no
  URL, and is persisted whenever that save itself goes through; the webhook is posted
  unless the file cannot be read; and the run ends as the reply gateway decides: with its
  error in a toast, or, in a run on a conversation that was already active, with the
  reply appended after the optimistic message.
\<close>

theorem upload_failure_does_not_abort:
  assumes guard: "\<not> isTyping ui"
    and sel: "selectedFile ui = Some f"
    and resolved: "fst (ensureConversation env (inputValue ui) ui w) = Inr (Some cid)" "cid \<noteq> []"
    and fails: "up_session (io_upload env) = None \<or> up_error (io_upload env) \<noteq> None"
  shows "(\<exists>e. fst (uploadChatAttachment_try (io_upload env) f w) = Inl e) \<and>
     fst (uploadChatAttachment (io_upload env) f w) = None \<and>
     rowsOf User (newMessages w (snd (handleSendMessage env ui w))) =
       (case (sv_session (io_save_user env), sv_insert (io_save_user env)) of
          (Some uid, Inr (newId, stamp)) \<Rightarrow>
            [\<lparr>mr_id = newId, mr_conversation_id = cid, mr_user_id = uid, mr_role = User,
              mr_content = JStr (inputValue ui),
              mr_attachment_info = Some \<lparr>name = f_name f, type = f_type f, previewUrl = None,
                                         url = None\<rparr>,
              mr_created_at = stamp\<rparr>]
        | _ \<Rightarrow> []) \<and>
     filter isPostWebhook (newRequests w (snd (handleSendMessage env ui w))) =
       (case buildPayload (io_webhook env) (inputValue ui) cid (Some f) of
          Inl e \<Rightarrow> []
        | Inr p \<Rightarrow> [PostWebhook p]) \<and>
     toasts (snd (handleSendMessage env ui w)) =
       toasts w @
         (case fst (sendMessageToWebhook (io_webhook env) (inputValue ui) cid (Some f) w) of
            Inl e \<Rightarrow> [Toast_processing_error e]
          | Inr t \<Rightarrow> []) \<and>
     (\<forall>t. activeConversationId ui = Some cid \<and>
          fst (sendMessageToWebhook (io_webhook env) (inputValue ui) cid (Some f) w) = Inr t \<longrightarrow>
        messages (fst (handleSendMessage env ui w)) =
          messages ui @
            [optimisticMessage env (inputValue ui) (Some f),
             \<lparr>msg_id = toString (now_ai_id env + 1), role = Assistant, content = t,
               timestamp = now_ai_stamp env, attachment = None\<rparr>])"
proof -
  let ?c = "inputValue ui"
  let ?ui0 = "ui\<lparr>messages := messages ui @ [optimisticMessage env ?c (Some f)],
                  inputValue := [], selectedFile := None,
                  fileInput := map_option (\<lambda>_. []) (fileInput ui), isTyping := True\<rparr>"
  let ?s1 = "ensureConversation env ?c ?ui0 w"
  let ?ui1 = "fst (snd ?s1)" and ?w1 = "snd (snd ?s1)"
  let ?s2 = "uploadStep env (Some f) ?w1"
  let ?info = "Some \<lparr>name = f_name f, type = f_type f, previewUrl = None, url = None\<rparr>"
  let ?w3 = "saveMessageToDb (io_save_user env) cid User (JStr ?c) ?info (snd ?s2)"
  let ?s4 = "sendMessageToWebhook (io_webhook env) ?c cid (Some f) ?w3"
  let ?ai = "\<lambda>t. \<lparr>msg_id = toString (now_ai_id env + 1), role = Assistant, content = t,
               timestamp = now_ai_stamp env, attachment = None\<rparr>"
  have g: "trim (inputValue ui) \<noteq> [] \<or> selectedFile ui \<noteq> None"
    by (simp add: sel)
  have r1: "fst ?s1 = Inr (Some cid)"
    using resolved(1) ensure_fst_indep [of ?ui0 ui env ?c w w] by simp
  have u: "fst ?s2 = None"
    by (rule uploadStep_fails [OF fails])
  have info: "dbAttachmentInfo (Some f) None = ?info"
    by (simp add: dbAttachmentInfo_def)
  have r4: "fst ?s4 = fst (sendMessageToWebhook (io_webhook env) ?c cid (Some f) w)"
    by (rule webhook_fst_indep)
  have tr: "handleSendMessage_try env ?c (Some f) ?ui0 w =
      (case fst ?s4 of
         Inl e \<Rightarrow> (Inl e, ?ui1, snd ?s4)
       | Inr t \<Rightarrow> (Inr (), ?ui1\<lparr>messages := messages ?ui1 @ [?ai t]\<rparr>,
                    saveMessageToDb (io_save_ai env) cid Assistant t None (snd ?s4)))"
    by (simp add: try_unfold Let_def r1 resolved(2) u info cong: sum.case_cong)
  have run: "handleSendMessage env ui w =
      (case fst ?s4 of
         Inl e \<Rightarrow> (?ui1\<lparr>isTyping := False\<rparr>,
                     toast (Toast_processing_error e) (logLine (Log_error e) (snd ?s4)))
       | Inr t \<Rightarrow> (?ui1\<lparr>messages := messages ?ui1 @ [?ai t], isTyping := False\<rparr>,
                    saveMessageToDb (io_save_ai env) cid Assistant t None (snd ?s4)))"
    by (simp add: run_unfold [OF guard g] Let_def sel tr split: sum.splits)
  have rows: "rowsOf User (newMessages w (snd (handleSendMessage env ui w))) =
       (case (sv_session (io_save_user env), sv_insert (io_save_user env)) of
          (Some uid, Inr (newId, stamp)) \<Rightarrow>
            [\<lparr>mr_id = newId, mr_conversation_id = cid, mr_user_id = uid, mr_role = User,
              mr_content = JStr (inputValue ui), mr_attachment_info = ?info,
              mr_created_at = stamp\<rparr>]
        | _ \<Rightarrow> [])"
    using resolved(2)
    by (simp add: run newMessages_def rowsOf_def webhook_frame save_messages upload_frame
        ensure_frame split: option.splits sum.splits)
  have posts: "filter isPostWebhook (newRequests w (snd (handleSendMessage env ui w))) =
       (case buildPayload (io_webhook env) ?c cid (Some f) of
          Inl e \<Rightarrow> []
        | Inr p \<Rightarrow> [PostWebhook p])"
  proof (cases "fst ?s4")
    case (Inl e)
    then have "requests (snd (handleSendMessage env ui w)) =
        requests w @ newRequests w ?w1 @ newRequests ?w1 (snd ?s2) @ newRequests (snd ?s2) ?w3 @
          newRequests ?w3 (snd ?s4)"
      by (simp add: run requests_folded)
    then show ?thesis
      by (simp add: newRequests_append ensure_new upload_new save_new webhook_new)
  next
    case (Inr t)
    then have "requests (snd (handleSendMessage env ui w)) =
        requests w @ newRequests w ?w1 @ newRequests ?w1 (snd ?s2) @ newRequests (snd ?s2) ?w3 @
          newRequests ?w3 (snd ?s4) @
          newRequests (snd ?s4) (saveMessageToDb (io_save_ai env) cid Assistant t None (snd ?s4))"
      by (simp add: run requests_folded)
    then show ?thesis
      by (simp add: newRequests_append ensure_new upload_new save_new webhook_new)
  qed
  have tst: "toasts (snd (handleSendMessage env ui w)) =
       toasts w @
         (case fst (sendMessageToWebhook (io_webhook env) ?c cid (Some f) w) of
            Inl e \<Rightarrow> [Toast_processing_error e]
          | Inr t \<Rightarrow> [])"
    by (simp add: run r4 webhook_frame save_frame upload_frame ensure_frame split: sum.splits)
  have msgs: "\<forall>t. activeConversationId ui = Some cid \<and>
          fst (sendMessageToWebhook (io_webhook env) ?c cid (Some f) w) = Inr t \<longrightarrow>
        messages (fst (handleSendMessage env ui w)) =
          messages ui @ [optimisticMessage env ?c (Some f), ?ai t]"
    by (simp add: run r4 ensure_frame)
  from upload_fails [OF fails, of f w] rows posts tst msgs show ?thesis
    by (simp only: simp_thms)
qed


theorem upload_failure_does_not_abort_witness:
  "\<not> isTyping fileView \<and> selectedFile fileView = Some pngFile \<and>
   fst (ensureConversation uploadDownEnv (inputValue fileView) fileView emptyWorld) =
     Inr (Some (js ''c1'')) \<and>
   js ''c1'' \<noteq> [] \<and>
   up_error (io_upload uploadDownEnv) = Some (BackendError (js ''upload rejected'')) \<and>
   fst (uploadChatAttachment (io_upload uploadDownEnv) pngFile emptyWorld) = None \<and>
   map mr_attachment_info (rowsOf User (newMessages emptyWorld
       (snd (handleSendMessage uploadDownEnv fileView emptyWorld)))) =
     [Some \<lparr>name = js ''a.png'', type = js ''image/png'', previewUrl = None, url = None\<rparr>] \<and>
   length (filter isPostWebhook (newRequests emptyWorld
       (snd (handleSendMessage uploadDownEnv fileView emptyWorld)))) = 1 \<and>
   activeConversationId fileView = Some (js ''c1'') \<and>
   fst (sendMessageToWebhook (io_webhook uploadDownEnv) (inputValue fileView) (js ''c1'')
          (Some pngFile) emptyWorld) = Inr (JStr (js ''ola'')) \<and>
   map content (messages (fst (handleSendMessage uploadDownEnv fileView emptyWorld))) =
     [JStr (js ''hi''), JStr (js ''ola'')]"
proof -
  have g: "\<not> isTyping fileView" and sel: "selectedFile fileView = Some pngFile"
    by (simp_all add: ex_defs)
  have r: "fst (ensureConversation uploadDownEnv (inputValue fileView) fileView emptyWorld) =
      Inr (Some (js ''c1''))" "js ''c1'' \<noteq> []"
    by (simp_all add: ex_defs run_defs)
  have e: "up_error (io_upload uploadDownEnv) = Some (BackendError (js ''upload rejected''))"
    by (simp add: ex_defs)
  then have f: "up_session (io_upload uploadDownEnv) = None \<or>
      up_error (io_upload uploadDownEnv) \<noteq> None"
    by simp
  have s: "sv_session (io_save_user uploadDownEnv) = Some (js ''u1'')"
    "sv_insert (io_save_user uploadDownEnv) = Inr (js ''m1'', 103)"
    "f_name pngFile = js ''a.png''" "f_type pngFile = js ''image/png''"
    by (simp_all add: ex_defs)
  have p: "\<not> isl (buildPayload (io_webhook uploadDownEnv) (inputValue fileView) (js ''c1'')
      (Some pngFile))"
    by (simp add: ex_defs run_defs)
  have a: "activeConversationId fileView = Some (js ''c1'')"
    "fst (sendMessageToWebhook (io_webhook uploadDownEnv) (inputValue fileView) (js ''c1'')
          (Some pngFile) emptyWorld) = Inr (JStr (js ''ola''))"
    "messages fileView = []"
    "content (optimisticMessage uploadDownEnv (inputValue fileView) (Some pngFile)) =
       JStr (js ''hi'')"
    by (simp_all add: ex_defs run_defs)
  from upload_failure_does_not_abort [OF g sel r f] g sel r e s p a show ?thesis
    by (auto split: sum.splits)
qed


subsection \<open>No message without a conversation\<close>

lemma try_rows:
  "\<forall>row \<in> set (newMessages w (snd (snd (handleSendMessage_try env c f ui w)))).
     Inr (Some (mr_conversation_id row)) = fst (ensureConversation env c ui w) \<and>
     mr_conversation_id row \<noteq> []"
  by (auto simp: try_unfold Let_def newMessages_def webhook_frame save_messages upload_frame
      ensure_frame split: sum.splits option.splits if_splits)

lemma try_after_ensure:
  "\<exists>rest. requests (snd (snd (handleSendMessage_try env c f ui w))) =
       requests (snd (snd (ensureConversation env c ui w))) @ rest \<and>
     filter isInsertConversation rest = []"
  "map cr_id (tbl_conversations (snd (snd (handleSendMessage_try env c f ui w)))) =
     map cr_id (tbl_conversations (snd (snd (ensureConversation env c ui w))))"
  "activeConversationId (fst (snd (handleSendMessage_try env c f ui w))) =
     activeConversationId (fst (snd (ensureConversation env c ui w)))"
  "toasts (snd (snd (handleSendMessage_try env c f ui w))) = toasts w"
  by (simp_all add: try_unfold Let_def requests_folded upload_new save_new webhook_new
      webhook_frame save_frame upload_frame ensure_frame split: sum.splits option.splits)

lemma ensure_created:
  assumes "activeConversationId ui = None \<or> activeConversationId ui = Some []"
    and "cv_session (io_create env) = Some uid" and "cv_insert (io_create env) = Inr (cid, stamp)"
  shows "fst (ensureConversation env c ui w) = Inr (Some cid)"
    and "\<exists>t. requests (snd (snd (ensureConversation env c ui w))) =
           requests w @ [GetSession, InsertConversation uid t]"
    and "map cr_id (tbl_conversations (snd (snd (ensureConversation env c ui w)))) =
           map cr_id (tbl_conversations w) @ [cid]"
    and "activeConversationId (fst (snd (ensureConversation env c ui w))) = Some cid"
  using assms
  by (auto simp: ensureConversation_def createConversation_def Let_def)

lemma ensure_not_created:
  assumes "activeConversationId ui = None \<or> activeConversationId ui = Some []"
    and "cv_session (io_create env) = None \<or> isl (cv_insert (io_create env))"
  shows "fst (ensureConversation env c ui w) = Inl CreateFailed"
    and "tbl_conversations (snd (snd (ensureConversation env c ui w))) = tbl_conversations w"
  using assms
  by (auto simp: ensureConversation_def createConversation_def Let_def
      split: option.splits sum.splits)

lemma run_rows:
  "\<forall>row \<in> set (newMessages w (snd (handleSendMessage env ui w))).
     mr_conversation_id row \<noteq> []"
proof (cases "(trim (inputValue ui) = [] \<and> selectedFile ui = None) \<or> isTyping ui")
  case True
  then have "handleSendMessage env ui w = (ui, w)"
    by (simp add: handleSendMessage_def)
  then show ?thesis by (simp add: newMessages_def)
next
  case False
  then have g: "\<not> isTyping ui" "trim (inputValue ui) \<noteq> [] \<or> selectedFile ui \<noteq> None"
    by auto
  show ?thesis
    using try_rows [of w env "inputValue ui" "selectedFile ui"]
    by (simp add: run_unfold [OF g] Let_def newMessages_def split: sum.splits)
qed

lemma save_without_id:
  "tbl_chat_messages (saveMessageToDb io [] r c a w) = tbl_chat_messages w"
  "filter isInsertMessage (newRequests w (saveMessageToDb io [] r c a w)) = []"
  "sv_session io \<noteq> None \<longrightarrow>
     console (saveMessageToDb io [] r c a w) = console w @ [Log_no_conversation_id]"
  by (auto simp: saveMessageToDb_def newRequests_def Let_def split: option.splits)

lemma run_created:
  assumes guard: "\<not> isTyping ui" "trim (inputValue ui) \<noteq> [] \<or> selectedFile ui \<noteq> None"
    and none: "activeConversationId ui = None \<or> activeConversationId ui = Some []"
    and created: "cv_session (io_create env) = Some uid" "cv_insert (io_create env) = Inr (cid, stamp)"
  shows "length (filter isInsertConversation
             (newRequests w (snd (handleSendMessage env ui w)))) = 1 \<and>
     filter isInsertMessage (takeWhile (\<lambda>q. \<not> isInsertConversation q)
             (newRequests w (snd (handleSendMessage env ui w)))) = [] \<and>
     map cr_id (tbl_conversations (snd (handleSendMessage env ui w))) =
       map cr_id (tbl_conversations w) @ [cid] \<and>
     activeConversationId (fst (handleSendMessage env ui w)) = Some cid \<and>
     (\<forall>row \<in> set (newMessages w (snd (handleSendMessage env ui w))).
        mr_conversation_id row = cid)"
proof -
  let ?c = "inputValue ui" and ?f = "selectedFile ui"
  let ?ui0 = "ui\<lparr>messages := messages ui @ [optimisticMessage env ?c ?f],
                  inputValue := [], selectedFile := None,
                  fileInput := map_option (\<lambda>_. []) (fileInput ui), isTyping := True\<rparr>"
  let ?s1 = "ensureConversation env ?c ?ui0 w"
  let ?t = "handleSendMessage_try env ?c ?f ?ui0 w"
  have n0: "activeConversationId ?ui0 = None \<or> activeConversationId ?ui0 = Some []"
    using none by simp
  note e = ensure_created [OF n0 created, of ?c w]
  from e(2) obtain t where
    q1: "requests (snd (snd ?s1)) = requests w @ [GetSession, InsertConversation uid t]"
    by blast
  from try_after_ensure(1) [of env ?c ?f ?ui0 w] obtain rest where
    q2: "requests (snd (snd ?t)) = requests (snd (snd ?s1)) @ rest"
      and nc: "filter isInsertConversation rest = []"
    by blast
  have req: "newRequests w (snd (handleSendMessage env ui w)) =
      GetSession # InsertConversation uid t # rest"
    by (simp add: run_unfold [OF guard] Let_def newRequests_def q1 q2 split: sum.splits)
  have conv: "map cr_id (tbl_conversations (snd (handleSendMessage env ui w))) =
      map cr_id (tbl_conversations w) @ [cid]"
    using try_after_ensure(2) [of env ?c ?f ?ui0 w] e(3)
    by (simp add: run_unfold [OF guard] Let_def split: sum.splits)
  have act: "activeConversationId (fst (handleSendMessage env ui w)) = Some cid"
    using try_after_ensure(3) [of env ?c ?f ?ui0 w] e(4)
    by (simp add: run_unfold [OF guard] Let_def split: sum.splits)
  have rows: "\<forall>row \<in> set (newMessages w (snd (handleSendMessage env ui w))).
        mr_conversation_id row = cid"
    using try_rows [of w env ?c ?f ?ui0] e(1)
    by (simp add: run_unfold [OF guard] Let_def newMessages_def split: sum.splits)
  from req nc conv act rows show ?thesis
    by simp
qed

lemma run_not_created:
  assumes guard: "\<not> isTyping ui" "trim (inputValue ui) \<noteq> [] \<or> selectedFile ui \<noteq> None"
    and none: "activeConversationId ui = None \<or> activeConversationId ui = Some []"
    and failed: "cv_session (io_create env) = None \<or> isl (cv_insert (io_create env))"
  shows "newMessages w (snd (handleSendMessage env ui w)) = [] \<and>
     filter isInsertMessage (newRequests w (snd (handleSendMessage env ui w))) = [] \<and>
     tbl_conversations (snd (handleSendMessage env ui w)) = tbl_conversations w \<and>
     toasts (snd (handleSendMessage env ui w)) = toasts w @ [Toast_processing_error CreateFailed]"
proof -
  let ?c = "inputValue ui" and ?f = "selectedFile ui"
  let ?ui0 = "ui\<lparr>messages := messages ui @ [optimisticMessage env ?c ?f],
                  inputValue := [], selectedFile := None,
                  fileInput := map_option (\<lambda>_. []) (fileInput ui), isTyping := True\<rparr>"
  let ?s1 = "ensureConversation env ?c ?ui0 w"
  have n0: "activeConversationId ?ui0 = None \<or> activeConversationId ?ui0 = Some []"
    using none by simp
  note e = ensure_not_created [OF n0 failed, of ?c w]
  have tr: "handleSendMessage_try env ?c ?f ?ui0 w = (Inl CreateFailed, fst (snd ?s1), snd (snd ?s1))"
    by (simp add: try_unfold Let_def e(1))
  have run: "handleSendMessage env ui w =
      (fst (snd ?s1)\<lparr>isTyping := False\<rparr>,
       toast (Toast_processing_error CreateFailed) (logLine (Log_error CreateFailed) (snd (snd ?s1))))"
    by (simp add: run_unfold [OF guard] Let_def tr)
  have "requests (snd (handleSendMessage env ui w)) =
      requests w @ newRequests w (snd (snd ?s1))"
    by (simp add: run requests_folded)
  then have req: "newRequests w (snd (handleSendMessage env ui w)) = newRequests w (snd (snd ?s1))"
    by (rule newRequests_append)
  show ?thesis
    by (simp add: req ensure_new) (simp add: run newMessages_def ensure_frame e(2))
qed

text \<open>
  Claim C2. No chat message is persisted under a null or empty conversation reference.
  \<open>saveMessageToDb\<close> with an empty conversation id inserts nothing and issues no insert;
  with a session it writes its log line. Every row a run of \<open>handleSendMessage\<close> adds to
  \<open>chat_messages\<close> has a conversation id that is not empty. A run with no active
  conversation whose creation goes through issues exactly one insert of a conversation
  and no insert of a message before it, stores exactly one more conversation, adopts its
  id as the active one, and writes every message of the run under that id. When the
  creation fails, for want of a session or by an error of the backend, the run persists
  no message and issues no insert of one, and reports the failure.
\<close>

theorem no_message_without_conversation:
  "tbl_chat_messages (saveMessageToDb io [] r c a w) = tbl_chat_messages w \<and>
   filter isInsertMessage (newRequests w (saveMessageToDb io [] r c a w)) = [] \<and>
   (sv_session io \<noteq> None \<longrightarrow>
      console (saveMessageToDb io [] r c a w) = console w @ [Log_no_conversation_id]) \<and>
   (\<forall>row \<in> set (newMessages w (snd (handleSendMessage env ui w))).
      mr_conversation_id row \<noteq> []) \<and>
   (\<not> isTyping ui \<and> (trim (inputValue ui) \<noteq> [] \<or> selectedFile ui \<noteq> None) \<and>
    (activeConversationId ui = None \<or> activeConversationId ui = Some []) \<longrightarrow>
      (\<forall>uid cid stamp.
         cv_session (io_create env) = Some uid \<and> cv_insert (io_create env) = Inr (cid, stamp) \<longrightarrow>
           length (filter isInsertConversation
             (newRequests w (snd (handleSendMessage env ui w)))) = 1 \<and>
           filter isInsertMessage (takeWhile (\<lambda>q. \<not> isInsertConversation q)
             (newRequests w (snd (handleSendMessage env ui w)))) = [] \<and>
           map cr_id (tbl_conversations (snd (handleSendMessage env ui w))) =
             map cr_id (tbl_conversations w) @ [cid] \<and>
           activeConversationId (fst (handleSendMessage env ui w)) = Some cid \<and>
           (\<forall>row \<in> set (newMessages w (snd (handleSendMessage env ui w))).
              mr_conversation_id row = cid)) \<and>
      (cv_session (io_create env) = None \<or> isl (cv_insert (io_create env)) \<longrightarrow>
         newMessages w (snd (handleSendMessage env ui w)) = [] \<and>
         filter isInsertMessage (newRequests w (snd (handleSendMessage env ui w))) = [] \<and>
         tbl_conversations (snd (handleSendMessage env ui w)) = tbl_conversations w \<and>
         toasts (snd (handleSendMessage env ui w)) =
           toasts w @ [Toast_processing_error CreateFailed]))"
proof (intro conjI impI allI; (elim conjE)?)
  show "tbl_chat_messages (saveMessageToDb io [] r c a w) = tbl_chat_messages w"
    and "filter isInsertMessage (newRequests w (saveMessageToDb io [] r c a w)) = []"
    by (rule save_without_id)+
  show "console (saveMessageToDb io [] r c a w) = console w @ [Log_no_conversation_id]"
    if "sv_session io \<noteq> None"
    using that save_without_id(3) by blast
  show "\<forall>row \<in> set (newMessages w (snd (handleSendMessage env ui w))).
      mr_conversation_id row \<noteq> []"
    by (rule run_rows)
next
  fix uid cid stamp
  assume "\<not> isTyping ui" "trim (inputValue ui) \<noteq> [] \<or> selectedFile ui \<noteq> None"
    "activeConversationId ui = None \<or> activeConversationId ui = Some []"
    "cv_session (io_create env) = Some uid" "cv_insert (io_create env) = Inr (cid, stamp)"
  note c = run_created [OF this, of w]
  from c show "length (filter isInsertConversation
             (newRequests w (snd (handleSendMessage env ui w)))) = 1" by blast
  from c show "filter isInsertMessage (takeWhile (\<lambda>q. \<not> isInsertConversation q)
             (newRequests w (snd (handleSendMessage env ui w)))) = []" by blast
  from c show "map cr_id (tbl_conversations (snd (handleSendMessage env ui w))) =
             map cr_id (tbl_conversations w) @ [cid]" by blast
  from c show "activeConversationId (fst (handleSendMessage env ui w)) = Some cid" by blast
  from c show "\<forall>row \<in> set (newMessages w (snd (handleSendMessage env ui w))).
              mr_conversation_id row = cid" by blast
next
  assume "\<not> isTyping ui" "trim (inputValue ui) \<noteq> [] \<or> selectedFile ui \<noteq> None"
    "activeConversationId ui = None \<or> activeConversationId ui = Some []"
    "cv_session (io_create env) = None \<or> isl (cv_insert (io_create env))"
  note n = run_not_created [OF this, of w]
  from n show "newMessages w (snd (handleSendMessage env ui w)) = []" by blast
  from n show "filter isInsertMessage (newRequests w (snd (handleSendMessage env ui w))) = []"
    by blast
  from n show "tbl_conversations (snd (handleSendMessage env ui w)) = tbl_conversations w"
    by blast
  from n show "toasts (snd (handleSendMessage env ui w)) =
           toasts w @ [Toast_processing_error CreateFailed]" by blast
qed


theorem no_message_without_conversation_witness:
  "\<not> isTyping freshView \<and> trim (inputValue freshView) \<noteq> [] \<and>
   activeConversationId freshView = None \<and>
   cv_session (io_create goodEnv) = Some (js ''u1'') \<and>
   cv_insert (io_create goodEnv) = Inr (js ''c2'', 101) \<and>
   length (filter isInsertConversation
     (newRequests emptyWorld (snd (handleSendMessage goodEnv freshView emptyWorld)))) = 1 \<and>
   map cr_id (tbl_conversations (snd (handleSendMessage goodEnv freshView emptyWorld))) =
     [js ''c2''] \<and>
   activeConversationId (fst (handleSendMessage goodEnv freshView emptyWorld)) = Some (js ''c2'') \<and>
   cv_session (io_create signedOutEnv) = None \<and>
   newMessages emptyWorld (snd (handleSendMessage signedOutEnv freshView emptyWorld)) = []"
proof -
  have t: "trim (inputValue freshView) \<noteq> []"
    by (simp add: ex_defs run_defs)
  have g: "\<not> isTyping freshView" "activeConversationId freshView = None"
    by (simp_all add: ex_defs)
  have c: "cv_session (io_create goodEnv) = Some (js ''u1'')"
    "cv_insert (io_create goodEnv) = Inr (js ''c2'', 101)"
    "cv_session (io_create signedOutEnv) = None"
    by (simp_all add: ex_defs)
  have e: "tbl_conversations emptyWorld = []"
    by (simp add: emptyWorld_def)
  from no_message_without_conversation [where w = emptyWorld and env = goodEnv and ui = freshView]
    t g c
  have 1: "length (filter isInsertConversation
     (newRequests emptyWorld (snd (handleSendMessage goodEnv freshView emptyWorld)))) = 1"
    "map cr_id (tbl_conversations (snd (handleSendMessage goodEnv freshView emptyWorld))) =
       map cr_id (tbl_conversations emptyWorld) @ [js ''c2'']"
    "activeConversationId (fst (handleSendMessage goodEnv freshView emptyWorld)) = Some (js ''c2'')"
    by blast+
  from no_message_without_conversation
    [where w = emptyWorld and env = signedOutEnv and ui = freshView] t g c
  have 2: "newMessages emptyWorld (snd (handleSendMessage signedOutEnv freshView emptyWorld)) = []"
    by blast
  from t g c 1 2 e show ?thesis
    by simp
qed


end
